theory Spec2Isabelle
  imports Main "HOL-Library.List_Lexorder" "HOL-Library.Char_ord"
begin

section \<open>JavaScript values\<close>

text \<open>
  The server is an Express application (first source variant of \<^verbatim>\<open>part_000\<close>, build tag
  \<^verbatim>\<open>2026-02-24-clean\<close>, the one that carries the duplicate-join guard). Values that the code
  handles without knowing their type (the parsed \<^verbatim>\<open>context\<close> of a join link, upstream
  error payloads, the call resource, the JSON bodies it builds) are JavaScript values.

  The code never computes with a number: it tests one for truthiness and converts it to a
  string. A number is therefore given by the text that \<^verbatim>\<open>String(n)\<close> returns for it
  (\<^verbatim>\<open>1.5\<close>, \<^verbatim>\<open>-12\<close>, \<^verbatim>\<open>1e+21\<close>, \<^verbatim>\<open>NaN\<close>); that text is produced by the
  runtime, which delivers the values (\<^verbatim>\<open>JSON.parse\<close>). Different numbers have different
  texts, except that \<^verbatim>\<open>-0\<close> prints as \<^verbatim>\<open>0\<close>, and both are falsy. An object is the
  list of its own properties, each name once.
\<close>

datatype jsval =
    JUndefined
  | JNull
  | JBool bool
  | JNum string
  | JStr string
  | JArr "jsval list"
  | JObj "(string \<times> jsval) list"

text \<open>
  \<^verbatim>\<open>!!v\<close>: the falsy values are undefined, null, false, the numbers 0, -0 and NaN, and
  the empty string.
\<close>

fun truthy :: "jsval \<Rightarrow> bool" where
  "truthy JUndefined = False"
| "truthy JNull = False"
| "truthy (JBool b) = b"
| "truthy (JNum n) = (n \<noteq> ''0'' \<and> n \<noteq> ''NaN'')"
| "truthy (JStr s) = (s \<noteq> [])"
| "truthy (JArr xs) = True"
| "truthy (JObj kvs) = True"

text \<open>\<^verbatim>\<open>a || b\<close>\<close>

definition js_or :: "jsval \<Rightarrow> jsval \<Rightarrow> jsval" where
  "js_or a b = (if truthy a then a else b)"

text \<open>
  \<^verbatim>\<open>v?.k\<close> for the property names the code reads (\<^verbatim>\<open>Oid\<close>, \<^verbatim>\<open>id\<close>, \<^verbatim>\<open>state\<close>,
  \<^verbatim>\<open>terminationReason\<close>): the property of an object, undefined on anything else.
\<close>

fun js_get :: "jsval \<Rightarrow> string \<Rightarrow> jsval" where
  "js_get (JObj kvs) k = (case map_of kvs k of Some v \<Rightarrow> v | None \<Rightarrow> JUndefined)"
| "js_get v k = JUndefined"

fun join_comma :: "string list \<Rightarrow> string" where
  "join_comma [] = []"
| "join_comma [s] = s"
| "join_comma (s # t # ss) = s @ '','' @ join_comma (t # ss)"

text \<open>
  \<^verbatim>\<open>String(v)\<close>, the conversion a template literal \<^verbatim>\<open>`${v}`\<close> applies: a number
  gives its text, an array its elements joined by commas (undefined and null as the empty
  text), an object the text that the inherited \<^verbatim>\<open>toString\<close> gives. The conversion throws
  for an object whose own property \<^verbatim>\<open>toString\<close> hides the inherited method; that case is
  not modelled, and \<open>js_toString\<close> is meant for the other values.
\<close>

fun js_toString :: "jsval \<Rightarrow> string" where
  "js_toString JUndefined = ''undefined''"
| "js_toString JNull = ''null''"
| "js_toString (JBool b) = (if b then ''true'' else ''false'')"
| "js_toString (JNum n) = n"
| "js_toString (JStr s) = s"
| "js_toString (JArr xs) =
     join_comma (map (\<lambda>x. if x = JUndefined \<or> x = JNull then [] else js_toString x) xs)"
| "js_toString (JObj kvs) = ''[object Object]''"

text \<open>
  An optional string field of an upstream resource. The code reads every such field only
  through \<^verbatim>\<open>!\<close>, \<^verbatim>\<open>||\<close> or \<^verbatim>\<open>??\<close>, which treat null and undefined alike, so \<open>None\<close>
  stands for both: \<^verbatim>\<open>x || null\<close>, \<^verbatim>\<open>x ?? null\<close> and \<^verbatim>\<open>x || ""\<close>.
\<close>

definition str_or_null :: "string option \<Rightarrow> jsval" where
  "str_or_null x = (case x of Some (c # cs) \<Rightarrow> JStr (c # cs) | _ \<Rightarrow> JNull)"

definition str_nullish :: "string option \<Rightarrow> jsval" where
  "str_nullish x = (case x of Some s \<Rightarrow> JStr s | None \<Rightarrow> JNull)"

definition str_or_empty :: "string option \<Rightarrow> string" where
  "str_or_empty x = (case x of Some s \<Rightarrow> s | None \<Rightarrow> [])"

section \<open>Configuration, runtime library and external services\<close>

text \<open>The environment variables read at start-up; an unset variable is \<open>None\<close>.\<close>

record config =
  API_KEY :: "string option"
  TENANT_ID :: "string option"
  env_CALLING_CALLBACK_URI :: "string option"

definition CALLING_CALLBACK_URI :: "config \<Rightarrow> string" where
  "CALLING_CALLBACK_URI cfg =
     (case env_CALLING_CALLBACK_URI cfg of
        Some (c # cs) \<Rightarrow> c # cs
      | _ \<Rightarrow> ''https://lysara-e3e2f0dydffnfefs.southeastasia-01.azurewebsites.net/api/calling'')"

definition tenantId :: "config \<Rightarrow> jsval" where
  "tenantId cfg = (case TENANT_ID cfg of Some s \<Rightarrow> JStr s | None \<Rightarrow> JUndefined)"

text \<open>
  The functions of the JavaScript runtime that the code calls and that are not part of the
  repository are parameters: \<^verbatim>\<open>new URL(s)\<close> (\<open>None\<close> when it throws),
  \<^verbatim>\<open>u.searchParams.get(name)\<close> (\<open>None\<close> for null), \<^verbatim>\<open>decodeURIComponent\<close> and
  \<^verbatim>\<open>JSON.parse\<close> (\<open>None\<close> when they throw), \<^verbatim>\<open>encodeURIComponent\<close>, and the collation
  behind \<^verbatim>\<open>a.localeCompare(b)\<close>, given by a key into a linear order:
  \<^verbatim>\<open>a.localeCompare(b)\<close> is negative, zero or positive as the key of \<open>a\<close> is less than,
  equal to or greater than the key of \<open>b\<close>.
\<close>

record ('u, 'k) js_runtime =
  new_URL :: "string \<Rightarrow> 'u option"
  searchParams_get :: "'u \<Rightarrow> string \<Rightarrow> string option"
  decodeURIComponent :: "string \<Rightarrow> string option"
  JSON_parse :: "string \<Rightarrow> jsval option"
  encodeURIComponent :: "string \<Rightarrow> string"
  collation_key :: "string \<Rightarrow> 'k"

text \<open>The error object \<open>e\<close> of a rejected call: \<^verbatim>\<open>e.response\<close> (status and data), \<^verbatim>\<open>e.message\<close>.\<close>

record js_error =
  response :: "(nat \<times> jsval) option"
  message :: string

text \<open>
  The online-meeting and transcript resources of the meetings platform, with the fields the
  code reads, typed as the platform's schema types them: \<open>threadId\<close> is
  \<^verbatim>\<open>meeting?.chatInfo?.threadId\<close>, \<open>joinMeetingId\<close> and \<open>passcode\<close> are
  \<^verbatim>\<open>meeting?.joinMeetingIdSettings?.joinMeetingId\<close> and \<^verbatim>\<open>...?.passcode\<close>. The
  identifiers are always present; the other fields may be absent or null.
\<close>

record onlineMeeting =
  meeting_id :: string
  subject :: "string option"
  threadId :: "string option"
  joinMeetingId :: "string option"
  passcode :: "string option"

record callTranscript =
  transcript_id :: string
  createdDateTime :: "string option"

text \<open>
  The external collaborators, as they answer during one request: the token provider, and
  the platform's answers to the requests sent with \<^verbatim>\<open>axios\<close> (an error for a rejected
  promise). Each answer is a function of the URL, the bearer token and, for the POST, the
  payload. The two collection requests answer with \<^verbatim>\<open>data?.value\<close>.
\<close>

record services =
  getGraphToken :: "js_error + string"
  get_onlineMeetings :: "string \<Rightarrow> string \<Rightarrow> js_error + onlineMeeting list option"
  post_calls :: "string \<Rightarrow> jsval \<Rightarrow> string \<Rightarrow> js_error + jsval"
  delete_call :: "string \<Rightarrow> string \<Rightarrow> js_error + unit"
  get_call :: "string \<Rightarrow> string \<Rightarrow> js_error + jsval"
  get_transcripts :: "string \<Rightarrow> string \<Rightarrow> js_error + callTranscript list option"
  get_content :: "string \<Rightarrow> string \<Rightarrow> js_error + string"

text \<open>What a handler sends out, in order; a request is logged with its URL and bearer token.\<close>

datatype io_event =
    Token_request
  | Http_get string string
  | Http_post string jsval string
  | Http_delete string string

datatype body = Json jsval | Text string

record http_response =
  status :: nat
  body :: body

text \<open>
  The result of serving a request: the response, the guard afterwards, and what was sent
  out meanwhile.
\<close>

type_synonym guard_map = "(string \<times> jsval) list"

record outcome =
  res :: http_response
  guard :: guard_map
  io :: "io_event list"

definition reply :: "nat \<Rightarrow> jsval \<Rightarrow> guard_map \<Rightarrow> io_event list \<Rightarrow> outcome" where
  "reply st b g evs = \<lparr>res = \<lparr>status = st, body = Json b\<rparr>, guard = g, io = evs\<rparr>"

section \<open>The duplicate-join guard\<close>

text \<open>
  \<^verbatim>\<open>const activeCallsByThreadId = new Map(); // threadId -> callId\<close>
  A JavaScript \<open>Map\<close> iterates in insertion order, and the hangup loop depends on that
  order, so the guard is the list of its entries in insertion order. \<^verbatim>\<open>set\<close> replaces the
  value of an existing key in place and appends a new key at the end; \<^verbatim>\<open>delete\<close> removes
  the key. The keys are thread identifiers, the values the \<^verbatim>\<open>id\<close> read from the
  call resource.
\<close>

definition map_has :: "guard_map \<Rightarrow> string \<Rightarrow> bool" where
  "map_has g k = (k \<in> set (map fst g))"

definition map_get :: "guard_map \<Rightarrow> string \<Rightarrow> jsval" where
  "map_get g k = (case map_of g k of Some v \<Rightarrow> v | None \<Rightarrow> JUndefined)"

fun map_set :: "guard_map \<Rightarrow> string \<Rightarrow> jsval \<Rightarrow> guard_map" where
  "map_set [] k v = [(k, v)]"
| "map_set ((k', v') # g) k v = (if k' = k then (k, v) # g else (k', v') # map_set g k v)"

definition map_delete :: "guard_map \<Rightarrow> string \<Rightarrow> guard_map" where
  "map_delete g k = filter (\<lambda>e. fst e \<noteq> k) g"

text \<open>
  The loop of the hangup handler:
  \<^verbatim>\<open>for (const [tId, cId] of activeCallsByThreadId.entries()) {
    if (cId === callId) { activeCallsByThreadId.delete(tId); break; } }\<close>
\<close>

definition remove_call :: "guard_map \<Rightarrow> string \<Rightarrow> guard_map" where
  "remove_call g callId =
     (case find (\<lambda>e. snd e = JStr callId) g of
        Some e \<Rightarrow> map_delete g (fst e)
      | None \<Rightarrow> g)"

section \<open>Helpers\<close>

text \<open>
  \<^verbatim>\<open>function requireApiKey(req, res, next)\<close>: the gate in front of every protected route;
  \<open>None\<close> is \<^verbatim>\<open>next()\<close>.
\<close>

definition requireApiKey :: "config \<Rightarrow> string option \<Rightarrow> http_response option" where
  "requireApiKey cfg key =
     (case API_KEY cfg of
        Some (c # cs) \<Rightarrow>
          (if key \<noteq> Some (c # cs)
           then Some \<lparr>status = 401, body = Json (JObj [(''error'', JStr ''Unauthorized'')])\<rparr>
           else None)
      | _ \<Rightarrow>
          Some \<lparr>status = 500,
                body = Json (JObj [(''error'', JStr ''API_KEY not configured on server'')])\<rparr>)"

text \<open>
  \<^verbatim>\<open>function tryExtractOrganizerOid(joinWebUrl)\<close>; null is \<open>JNull\<close>. Every exception inside
  is caught and gives null.
\<close>

definition tryExtractOrganizerOid :: "('u, 'k) js_runtime \<Rightarrow> string \<Rightarrow> jsval" where
  "tryExtractOrganizerOid rt joinWebUrl =
     (case new_URL rt joinWebUrl of
        None \<Rightarrow> JNull
      | Some u \<Rightarrow>
          (case searchParams_get rt u ''context'' of
             Some (c # cs) \<Rightarrow>
               (case decodeURIComponent rt (c # cs) of
                  None \<Rightarrow> JNull
                | Some decoded \<Rightarrow>
                    (case JSON_parse rt decoded of
                       None \<Rightarrow> JNull
                     | Some ctx \<Rightarrow> js_or (js_get ctx ''Oid'') JNull))
           | _ \<Rightarrow> JNull))"

text \<open>\<^verbatim>\<open>e?.response?.data || e.message\<close>\<close>

definition error_payload :: "js_error \<Rightarrow> jsval" where
  "error_payload e =
     (case response e of
        Some (st, d) \<Rightarrow> js_or d (JStr (message e))
      | None \<Rightarrow> JStr (message e))"

record found =
  meeting :: "onlineMeeting option"
  tried :: string
  error :: jsval

definition onlineMeetings_url :: "('u, 'k) js_runtime \<Rightarrow> jsval \<Rightarrow> string \<Rightarrow> string" where
  "onlineMeetings_url rt organizerUserId joinWebUrl =
     ''https://graph.microsoft.com/v1.0/users/'' @ js_toString organizerUserId @ ''/onlineMeetings''
       @ ''?$filter=JoinWebUrl%20eq%20'' @ [CHR 0x27] @ encodeURIComponent rt joinWebUrl @ [CHR 0x27]"

text \<open>
  \<^verbatim>\<open>async function findOnlineMeeting({ token, organizerUserId, joinWebUrl })\<close>: one GET to
  \<open>tried\<close>; the first record of the answer, or null.
\<close>

definition findOnlineMeeting ::
  "('u, 'k) js_runtime \<Rightarrow> services \<Rightarrow> string \<Rightarrow> jsval \<Rightarrow> string \<Rightarrow> found" where
  "findOnlineMeeting rt svc token organizerUserId joinWebUrl =
     (let url = onlineMeetings_url rt organizerUserId joinWebUrl in
      case get_onlineMeetings svc url token of
        Inr (Some (m # ms)) \<Rightarrow> \<lparr>meeting = Some m, tried = url, error = JUndefined\<rparr>
      | Inr _ \<Rightarrow> \<lparr>meeting = None, tried = url, error = JUndefined\<rparr>
      | Inl e \<Rightarrow> \<lparr>meeting = None, tried = url, error = error_payload e\<rparr>)"

text \<open>\<^verbatim>\<open>function isGuid(s) { return /^[0-9a-fA-F-]{36}$/.test(String(s || "")); }\<close>, on a string.\<close>

definition hex_or_hyphen :: "char \<Rightarrow> bool" where
  "hex_or_hyphen c = (c \<in> set ''0123456789abcdefABCDEF-'')"

definition isGuid :: "string \<Rightarrow> bool" where
  "isGuid s = (length s = 36 \<and> list_all hex_or_hyphen s)"

section \<open>Routes\<close>

definition createCallUrl :: string where
  "createCallUrl = ''https://graph.microsoft.com/v1.0/communications/calls''"

text \<open>
  The \<^verbatim>\<open>payload\<close> of \<^verbatim>\<open>POST /join\<close>: \<^verbatim>\<open>if (joinMeetingId) { ... } else { ... }\<close> with
  \<^verbatim>\<open>passcode = found.meeting?.joinMeetingIdSettings?.passcode ?? null\<close>.
\<close>

definition payload :: "config \<Rightarrow> jsval \<Rightarrow> onlineMeeting \<Rightarrow> string \<Rightarrow> jsval" where
  "payload cfg organizerUserId m thread =
     (case joinMeetingId m of
        Some (c # cs) \<Rightarrow>
          JObj [(''@odata.type'', JStr ''#microsoft.graph.call''),
                (''callbackUri'', JStr (CALLING_CALLBACK_URI cfg)),
                (''requestedModalities'', JArr [JStr ''audio'']),
                (''mediaConfig'',
                   JObj [(''@odata.type'', JStr ''#microsoft.graph.serviceHostedMediaConfig'')]),
                (''meetingInfo'',
                   JObj [(''@odata.type'', JStr ''#microsoft.graph.joinMeetingIdMeetingInfo''),
                         (''joinMeetingId'', JStr (c # cs)),
                         (''passcode'', str_nullish (passcode m))]),
                (''tenantId'', tenantId cfg)]
      | _ \<Rightarrow>
          JObj [(''@odata.type'', JStr ''#microsoft.graph.call''),
                (''callbackUri'', JStr (CALLING_CALLBACK_URI cfg)),
                (''requestedModalities'', JArr [JStr ''audio'']),
                (''mediaConfig'',
                   JObj [(''@odata.type'', JStr ''#microsoft.graph.serviceHostedMediaConfig'')]),
                (''chatInfo'',
                   JObj [(''@odata.type'', JStr ''#microsoft.graph.chatInfo''),
                         (''threadId'', JStr thread),
                         (''messageId'', JStr ''0'')]),
                (''meetingInfo'',
                   JObj [(''@odata.type'', JStr ''#microsoft.graph.organizerMeetingInfo''),
                         (''organizer'',
                            JObj [(''@odata.type'', JStr ''#microsoft.graph.identitySet''),
                                  (''user'',
                                     JObj [(''@odata.type'', JStr ''#microsoft.graph.identity''),
                                           (''id'', organizerUserId),
                                           (''tenantId'', tenantId cfg)])]),
                         (''allowConversationWithoutHost'', JBool True)]),
                (''tenantId'', tenantId cfg)])"

text \<open>The message of the TypeError that reading property \<open>k\<close> of undefined or null throws.\<close>

definition cannot_read :: "jsval \<Rightarrow> string \<Rightarrow> string" where
  "cannot_read v k =
     ''Cannot read properties of '' @ js_toString v @ '' (reading '' @ [CHR 0x27] @ k
       @ [CHR 0x27] @ '')''"

text \<open>
  \<^verbatim>\<open>app.post("/join", requireApiKey, async (req, res) => { ... })\<close>, the handler behind the
  gate, on the \<^verbatim>\<open>joinWebUrl\<close> of the body (a string, or \<open>None\<close> when the body has none).
  Every exception is answered with status 500 by the handler's \<^verbatim>\<open>catch\<close>.
\<close>

definition join ::
  "config \<Rightarrow> ('u, 'k) js_runtime \<Rightarrow> services \<Rightarrow> guard_map \<Rightarrow> string option \<Rightarrow> outcome" where
  "join cfg rt svc g body_joinWebUrl =
     (case body_joinWebUrl of
        Some (c # cs) \<Rightarrow>
          (let joinWebUrl = c # cs;
               organizerUserId = tryExtractOrganizerOid rt joinWebUrl in
           if \<not> truthy organizerUserId then
             reply 400
               (JObj [(''error'', JStr ''Could not extract organizer Oid from joinWebUrl context.'')])
               g []
           else
             (case getGraphToken svc of
                Inl e \<Rightarrow> reply 500 (JObj [(''error'', error_payload e)]) g [Token_request]
              | Inr token \<Rightarrow>
                  (let fnd = findOnlineMeeting rt svc token organizerUserId joinWebUrl;
                       io1 = [Token_request, Http_get (tried fnd) token] in
                   case meeting fnd of
                     None \<Rightarrow>
                       reply 404
                         (JObj [(''error'',
                                   JStr ''Online meeting not found for organizerUserId + joinWebUrl.''),
                                (''tried'', JArr [JStr (tried fnd)]),
                                (''lookupError'', js_or (error fnd) JNull),
                                (''organizerUserIdUsed'', organizerUserId)])
                         g io1
                   | Some m \<Rightarrow>
                       (case threadId m of
                          Some (d # ds) \<Rightarrow>
                            (let thread = d # ds in
                             if map_has g thread then
                               reply 409
                                 (JObj [(''error'', JStr ''Bot already joined this meeting''),
                                        (''callId'', map_get g thread),
                                        (''threadId'', JStr thread)])
                                 g io1
                             else
                               (let pl = payload cfg organizerUserId m thread;
                                    io2 = io1 @ [Http_post createCallUrl pl token] in
                                case post_calls svc createCallUrl pl token of
                                  Inl e \<Rightarrow> reply 500 (JObj [(''error'', error_payload e)]) g io2
                                | Inr data \<Rightarrow>
                                    if data = JUndefined \<or> data = JNull then
                                      reply 500 (JObj [(''error'', JStr (cannot_read data ''id''))])
                                        g io2
                                    else
                                      reply 200
                                        (JObj [(''ok'', JBool True),
                                               (''organizerUserIdUsed'', organizerUserId),
                                               (''meeting'',
                                                  JObj [(''id'', JStr (meeting_id m)),
                                                        (''subject'', str_or_null (subject m)),
                                                        (''threadId'', JStr thread)]),
                                               (''call'', data)])
                                        (map_set g thread (js_get data ''id'')) io2))
                        | _ \<Rightarrow>
                            reply 400
                              (JObj [(''error'',
                                        JStr ''Online meeting found, but chatInfo.threadId is missing.''),
                                     (''meetingId'', JStr (meeting_id m))])
                              g io1))))
      | _ \<Rightarrow>
          reply 400 (JObj [(''error'', JStr ''Missing joinWebUrl (Teams meeting join link).'')])
            g [])"

definition call_url :: "string \<Rightarrow> string" where
  "call_url callId = ''https://graph.microsoft.com/v1.0/communications/calls/'' @ callId"

text \<open>\<^verbatim>\<open>app.post("/call/:callId/hangup", requireApiKey, async (req, res) => { ... })\<close>\<close>

definition hangup :: "services \<Rightarrow> guard_map \<Rightarrow> string \<Rightarrow> outcome" where
  "hangup svc g callId =
     (if \<not> isGuid callId then
        reply 400 (JObj [(''error'', JStr ''callId must be a GUID'')]) g []
      else
        (case getGraphToken svc of
           Inl e \<Rightarrow> reply 500 (JObj [(''error'', error_payload e)]) g [Token_request]
         | Inr token \<Rightarrow>
             (let url = call_url callId;
                  io1 = [Token_request, Http_delete url token] in
              case delete_call svc url token of
                Inl e \<Rightarrow> reply 500 (JObj [(''error'', error_payload e)]) g io1
              | Inr u \<Rightarrow>
                  reply 200 (JObj [(''ok'', JBool True), (''callId'', JStr callId)])
                    (remove_call g callId) io1)))"

text \<open>
  The \<^verbatim>\<open>catch\<close> of \<^verbatim>\<open>GET /call/:callId\<close>:
  \<^verbatim>\<open>const status = e?.response?.status;
  if (status === 404) return res.status(404).json({ ok: true, state: "not_found_or_ended" });
  return res.status(500).json({ error: e?.response?.data || e.message });\<close>
\<close>

definition getState :: "services \<Rightarrow> guard_map \<Rightarrow> string \<Rightarrow> outcome" where
  "getState svc g callId =
     (let catch = (\<lambda>e evs.
            if map_option fst (response e) = Some 404 then
              reply 404 (JObj [(''ok'', JBool True), (''state'', JStr ''not_found_or_ended'')]) g evs
            else reply 500 (JObj [(''error'', error_payload e)]) g evs) in
      if \<not> isGuid callId then
        reply 400 (JObj [(''error'', JStr ''callId must be a GUID'')]) g []
      else
        (case getGraphToken svc of
           Inl e \<Rightarrow> catch e [Token_request]
         | Inr token \<Rightarrow>
             (let url = call_url callId;
                  io1 = [Token_request, Http_get url token] in
              case get_call svc url token of
                Inl e \<Rightarrow> catch e io1
              | Inr data \<Rightarrow>
                  reply 200
                    (JObj [(''ok'', JBool True),
                           (''id'', js_get data ''id''),
                           (''state'', js_get data ''state''),
                           (''terminationReason'', js_or (js_get data ''terminationReason'') JNull)])
                    g io1)))"

text \<open>
  The selection in \<^verbatim>\<open>GET /transcripts\<close>:
  \<^verbatim>\<open>transcripts.sort((a, b) =>
     (a.createdDateTime || "").localeCompare(b.createdDateTime || "")).pop()\<close>.
  \<^verbatim>\<open>Array.prototype.sort\<close> is stable and, with a consistent comparator, returns the
  list in ascending order: that list is the one \<^const>\<open>sort_key\<close> computes, on the collation
  key of the timestamp. \<^verbatim>\<open>pop()\<close> is the last element, undefined on an empty array.
\<close>

definition timestamp :: "callTranscript \<Rightarrow> string" where
  "timestamp t = str_or_empty (createdDateTime t)"

definition sorted_transcripts ::
  "('u, 'k::linorder) js_runtime \<Rightarrow> callTranscript list \<Rightarrow> callTranscript list" where
  "sorted_transcripts rt transcripts =
     sort_key (\<lambda>t. collation_key rt (timestamp t)) transcripts"

definition latest ::
  "('u, 'k::linorder) js_runtime \<Rightarrow> callTranscript list \<Rightarrow> callTranscript option" where
  "latest rt transcripts =
     (let sorted = sorted_transcripts rt transcripts in
      if sorted = [] then None else Some (last sorted))"

definition transcripts_url :: "jsval \<Rightarrow> string \<Rightarrow> string" where
  "transcripts_url organizerUserId meetingId =
     ''https://graph.microsoft.com/v1.0/users/'' @ js_toString organizerUserId
       @ ''/onlineMeetings/'' @ meetingId @ ''/transcripts''"

text \<open>\<^verbatim>\<open>app.get("/transcripts", requireApiKey, async (req, res) => { ... })\<close>\<close>

definition transcripts ::
  "('u, 'k::linorder) js_runtime \<Rightarrow> services \<Rightarrow> guard_map \<Rightarrow> string option \<Rightarrow> outcome" where
  "transcripts rt svc g query_joinWebUrl =
     (case query_joinWebUrl of
        Some (c # cs) \<Rightarrow>
          (let joinWebUrl = c # cs;
               organizerUserId = tryExtractOrganizerOid rt joinWebUrl in
           if \<not> truthy organizerUserId then
             reply 400
               (JObj [(''error'', JStr ''Could not extract organizer Oid from joinWebUrl context'')])
               g []
           else
             (case getGraphToken svc of
                Inl e \<Rightarrow> reply 500 (JObj [(''error'', error_payload e)]) g [Token_request]
              | Inr token \<Rightarrow>
                  (let fnd = findOnlineMeeting rt svc token organizerUserId joinWebUrl;
                       io1 = [Token_request, Http_get (tried fnd) token] in
                   case meeting fnd of
                     None \<Rightarrow>
                       reply 404
                         (JObj [(''error'', JStr ''Online meeting not found''),
                                (''tried'', JStr (tried fnd)),
                                (''lookupError'', js_or (error fnd) JNull)])
                         g io1
                   | Some m \<Rightarrow>
                       (let meetingId = meeting_id m;
                            listUrl = transcripts_url organizerUserId meetingId;
                            io2 = io1 @ [Http_get listUrl token] in
                        case get_transcripts svc listUrl token of
                          Inl e \<Rightarrow> reply 500 (JObj [(''error'', error_payload e)]) g io2
                        | Inr v \<Rightarrow>
                            (let ts = (case v of Some ts \<Rightarrow> ts | None \<Rightarrow> []) in
                             if ts = [] then
                               reply 404
                                 (JObj [(''error'',
                                           JStr (''No transcripts found yet. Transcription may ''
                                                 @ ''not be started or still processing.'')),
                                        (''meetingId'', JStr meetingId)])
                                 g io2
                             else
                               (case latest rt ts of
                                  None \<Rightarrow>
                                    reply 500
                                      (JObj [(''error'', JStr (cannot_read JUndefined ''id''))]) g io2
                                | Some l \<Rightarrow>
                                    (let contentUrl = listUrl @ ''/'' @ transcript_id l @ ''/content'';
                                         io3 = io2 @ [Http_get contentUrl token] in
                                     case get_content svc contentUrl token of
                                       Inl e \<Rightarrow>
                                         reply 500 (JObj [(''error'', error_payload e)]) g io3
                                     | Inr vtt \<Rightarrow>
                                         \<lparr>res = \<lparr>status = 200, body = Text vtt\<rparr>,
                                          guard = g, io = io3\<rparr>)))))))
      | _ \<Rightarrow> reply 400 (JObj [(''error'', JStr ''Missing joinWebUrl query param'')]) g [])"

section \<open>The server as a state machine\<close>

text \<open>
  A request to one of the four protected routes, with its \<^verbatim>\<open>x-api-key\<close> header, and the
  server's step on it: the gate, then the handler. The only state is the guard.
\<close>

datatype request =
    POST_join "string option" "string option"
  | GET_call "string option" string
  | POST_hangup "string option" string
  | GET_transcripts "string option" "string option"

definition gated :: "config \<Rightarrow> string option \<Rightarrow> guard_map \<Rightarrow> outcome \<Rightarrow> outcome" where
  "gated cfg key g handler =
     (case requireApiKey cfg key of
        Some r \<Rightarrow> \<lparr>res = r, guard = g, io = []\<rparr>
      | None \<Rightarrow> handler)"

fun serve ::
  "config \<Rightarrow> ('u, 'k::linorder) js_runtime \<Rightarrow> services \<Rightarrow> guard_map \<Rightarrow> request \<Rightarrow> outcome" where
  "serve cfg rt svc g (POST_join key joinWebUrl) = gated cfg key g (join cfg rt svc g joinWebUrl)"
| "serve cfg rt svc g (GET_call key callId) = gated cfg key g (getState svc g callId)"
| "serve cfg rt svc g (POST_hangup key callId) = gated cfg key g (hangup svc g callId)"
| "serve cfg rt svc g (GET_transcripts key joinWebUrl) =
     gated cfg key g (transcripts rt svc g joinWebUrl)"

text \<open>
  A run of the server: the requests in the order served, each with the answers the
  external services give while it is served. A request is served to its end before the
  next one starts.
\<close>

fun run ::
  "config \<Rightarrow> ('u, 'k::linorder) js_runtime \<Rightarrow> guard_map \<Rightarrow> (services \<times> request) list \<Rightarrow> guard_map"
  where
  "run cfg rt g [] = g"
| "run cfg rt g ((svc, req) # rest) = run cfg rt (guard (serve cfg rt svc g req)) rest"

section \<open>Concrete inputs\<close>

text \<open>
  The theorems below hold for every runtime, configuration and behaviour of the external
  services. The examples instantiate them at the following inputs: join links of the
  platform, and the text that \<^verbatim>\<open>searchParams.get("context")\<close> returns for each (the
  value of the parameter, percent-decoded once). \<open>link_bad_json\<close> carries the context
  \<^verbatim>\<open>oops\<close>, \<open>link_no_context\<close> has no query, and \<open>link_malformed\<close> is not a URL.
  In \<open>link_percent\<close> and \<open>link_escape\<close> the \<^verbatim>\<open>Oid\<close> itself contains a percent sign,
  written \<^verbatim>\<open>%25\<close> in the link.
\<close>

definition context_ok :: string where
  \<open>context_ok =
     ''{"Tid":"11111111-1111-1111-1111-111111111111","Oid":"22222222-2222-2222-2222-222222222222"}''\<close>

definition context_short_oid :: string where
  \<open>context_short_oid = ''{"Tid":"t1","Oid":"not-a-guid"}''\<close>

definition context_no_oid :: string where
  \<open>context_no_oid = ''{"Tid":"t1"}''\<close>

definition context_percent :: string where
  \<open>context_percent = ''{"Oid":"100%"}''\<close>

definition context_escape :: string where
  \<open>context_escape = ''{"Oid":"a%41"}''\<close>

definition context_escape_decoded :: string where
  \<open>context_escape_decoded = ''{"Oid":"aA"}''\<close>

definition context_number :: string where
  \<open>context_number = ''{"Oid":1e21}''\<close>

definition link_ok :: string where
  "link_ok = ''https://teams.microsoft.com/l/meetup-join/19%3ameeting_abc%40thread.v2/0''
     @ ''?context=%7b%22Tid%22%3a%2211111111-1111-1111-1111-111111111111%22%2c''
     @ ''%22Oid%22%3a%2222222222-2222-2222-2222-222222222222%22%7d''"

definition link_short_oid :: string where
  "link_short_oid = ''https://teams.microsoft.com/l/meetup-join/19%3ameeting_abc%40thread.v2/0''
     @ ''?context=%7b%22Tid%22%3a%22t1%22%2c%22Oid%22%3a%22not-a-guid%22%7d''"

definition link_no_oid :: string where
  "link_no_oid = ''https://teams.microsoft.com/l/meetup-join/19%3ameeting_abc%40thread.v2/0''
     @ ''?context=%7b%22Tid%22%3a%22t1%22%7d''"

definition link_percent :: string where
  "link_percent = ''https://teams.microsoft.com/l/meetup-join/19%3ameeting_abc%40thread.v2/0''
     @ ''?context=%7b%22Oid%22%3a%22100%25%22%7d''"

definition link_escape :: string where
  "link_escape = ''https://teams.microsoft.com/l/meetup-join/19%3ameeting_abc%40thread.v2/0''
     @ ''?context=%7b%22Oid%22%3a%22a%2541%22%7d''"

definition link_number :: string where
  "link_number = ''https://teams.microsoft.com/l/meetup-join/19%3ameeting_abc%40thread.v2/0''
     @ ''?context=%7b%22Oid%22%3a1e21%7d''"

definition link_bad_json :: string where
  "link_bad_json =
     ''https://teams.microsoft.com/l/meetup-join/19%3ameeting_abc%40thread.v2/0?context=oops''"

definition link_no_context :: string where
  "link_no_context = ''https://teams.microsoft.com/l/meetup-join/19%3ameeting_abc%40thread.v2/0''"

definition link_malformed :: string where
  "link_malformed = ''not a url''"

text \<open>
  \<^verbatim>\<open>encodeURIComponent\<close> on a byte string: the unreserved characters stay, every other byte
  becomes \<^verbatim>\<open>%XX\<close> in upper-case hexadecimal.
\<close>

definition unreserved :: "char \<Rightarrow> bool" where
  "unreserved c =
     ((CHR ''a'' \<le> c \<and> c \<le> CHR ''z'') \<or> (CHR ''A'' \<le> c \<and> c \<le> CHR ''Z'')
      \<or> (CHR ''0'' \<le> c \<and> c \<le> CHR ''9'') \<or> c \<in> set ''-_.!~*()'' \<or> c = CHR 0x27)"

definition hex_digit :: "nat \<Rightarrow> char" where
  "hex_digit n = ''0123456789ABCDEF'' ! (n mod 16)"

definition percent_encode :: "string \<Rightarrow> string" where
  "percent_encode s =
     concat (map (\<lambda>c. if unreserved c then [c]
                       else [CHR ''%'', hex_digit (of_char c div 16), hex_digit (of_char c)]) s)"

text \<open>
  The runtime at these links, as Node.js answers. A URL object is represented by the list
  of its search parameters as \<^verbatim>\<open>searchParams\<close> holds them, that is, already
  percent-decoded. \<^verbatim>\<open>decodeURIComponent\<close> returns a string without \<^verbatim>\<open>%\<close> unchanged,
  turns the \<^verbatim>\<open>%41\<close> of \<open>context_escape\<close> into \<^verbatim>\<open>A\<close>, and throws on
  \<open>context_percent\<close>, whose \<^verbatim>\<open>%\<close> starts no escape (the instance is used on no other
  string). \<^verbatim>\<open>JSON.parse\<close> is given on the context texts. Strings are collated in
  code-unit order, which is the order \<^verbatim>\<open>localeCompare\<close> gives to timestamps of one
  format.
\<close>

definition sample_runtime :: "((string \<times> string) list, string) js_runtime" where
  "sample_runtime =
     \<lparr>new_URL = (\<lambda>s.
          if s = link_ok then Some [(''context'', context_ok)]
          else if s = link_short_oid then Some [(''context'', context_short_oid)]
          else if s = link_no_oid then Some [(''context'', context_no_oid)]
          else if s = link_percent then Some [(''context'', context_percent)]
          else if s = link_escape then Some [(''context'', context_escape)]
          else if s = link_number then Some [(''context'', context_number)]
          else if s = link_bad_json then Some [(''context'', ''oops'')]
          else if s = link_no_context then Some []
          else None),
      searchParams_get = (\<lambda>u name. map_of u name),
      decodeURIComponent = (\<lambda>s.
          if s = context_escape then Some context_escape_decoded
          else if CHR ''%'' \<in> set s then None
          else Some s),
      JSON_parse = (\<lambda>s.
          if s = context_ok
          then Some (JObj [(''Tid'', JStr ''11111111-1111-1111-1111-111111111111''),
                           (''Oid'', JStr ''22222222-2222-2222-2222-222222222222'')])
          else if s = context_short_oid
          then Some (JObj [(''Tid'', JStr ''t1''), (''Oid'', JStr ''not-a-guid'')])
          else if s = context_no_oid then Some (JObj [(''Tid'', JStr ''t1'')])
          else if s = context_percent then Some (JObj [(''Oid'', JStr ''100%'')])
          else if s = context_escape then Some (JObj [(''Oid'', JStr ''a%41'')])
          else if s = context_escape_decoded then Some (JObj [(''Oid'', JStr ''aA'')])
          else if s = context_number then Some (JObj [(''Oid'', JNum ''1e+21'')])
          else None),
      encodeURIComponent = percent_encode,
      collation_key = (\<lambda>s. s)\<rparr>"

text \<open>
  The same runtime with a collation that ignores the control character U+0001, as the
  collation behind \<^verbatim>\<open>localeCompare\<close> does: \<^verbatim>\<open>"\u0001".localeCompare("")\<close> is 0.
\<close>

definition ignoring_runtime :: "((string \<times> string) list, string) js_runtime" where
  "ignoring_runtime = sample_runtime\<lparr>collation_key := filter (\<lambda>c. c \<noteq> CHR 0x01)\<rparr>"

definition sample_config :: config where
  "sample_config =
     \<lparr>API_KEY = Some ''secret'',
      TENANT_ID = Some ''11111111-1111-1111-1111-111111111111'',
      env_CALLING_CALLBACK_URI = None\<rparr>"

definition sample_meeting :: onlineMeeting where
  "sample_meeting =
     \<lparr>meeting_id = ''MSo1N2Y5'', subject = Some ''Weekly sync'',
      threadId = Some ''19:meeting_abc@thread.v2'',
      joinMeetingId = Some ''123456789'', passcode = None\<rparr>"

definition sample_callId :: string where
  "sample_callId = ''33333333-3333-3333-3333-333333333333''"

definition sample_call :: jsval where
  "sample_call = JObj [(''id'', JStr sample_callId), (''state'', JStr ''establishing'')]"

definition sample_transcripts :: "callTranscript list" where
  "sample_transcripts =
     [\<lparr>transcript_id = ''first'', createdDateTime = Some ''2024-01-01T00:00:00Z''\<rparr>,
      \<lparr>transcript_id = ''second'', createdDateTime = Some ''2024-01-02T00:00:00Z''\<rparr>,
      \<lparr>transcript_id = ''third'', createdDateTime = Some ''2024-01-02T00:00:00Z''\<rparr>]"

text \<open>A transcript list in which the later entry has no creation timestamp.\<close>

definition transcripts_with_gap :: "callTranscript list" where
  "transcripts_with_gap =
     [\<lparr>transcript_id = ''dated'', createdDateTime = Some ''2024-01-01T00:00:00Z''\<rparr>,
      \<lparr>transcript_id = ''undated'', createdDateTime = None\<rparr>]"

text \<open>A transcript list in which no entry has a creation timestamp.\<close>

definition transcripts_undated :: "callTranscript list" where
  "transcripts_undated =
     [\<lparr>transcript_id = ''absent'', createdDateTime = None\<rparr>,
      \<lparr>transcript_id = ''blank'', createdDateTime = Some []\<rparr>]"

text \<open>
  A transcript list whose first entry is stamped with the single character U+0001 and
  whose second entry has no creation timestamp.
\<close>

definition transcripts_control_stamp :: "callTranscript list" where
  "transcripts_control_stamp =
     [\<lparr>transcript_id = ''stamped'', createdDateTime = Some [CHR 0x01]\<rparr>,
      \<lparr>transcript_id = ''undated'', createdDateTime = None\<rparr>]"

text \<open>External services that answer every request successfully.\<close>

definition sample_services :: services where
  "sample_services =
     \<lparr>getGraphToken = Inr ''token'',
      get_onlineMeetings = (\<lambda>url token. Inr (Some [sample_meeting])),
      post_calls = (\<lambda>url pl token. Inr sample_call),
      delete_call = (\<lambda>url token. Inr ()),
      get_call = (\<lambda>url token. Inr sample_call),
      get_transcripts = (\<lambda>url token. Inr (Some sample_transcripts)),
      get_content = (\<lambda>url token. Inr ''WEBVTT'')\<rparr>"

text \<open>An upstream failure with a status and a payload, and the platform's not-found.\<close>

definition unavailable :: js_error where
  "unavailable =
     \<lparr>response = Some (503, JObj [(''error'', JStr ''ServiceUnavailable'')]),
      message = ''Request failed with status code 503''\<rparr>"

definition not_found :: js_error where
  "not_found =
     \<lparr>response = Some (404, JObj [(''error'', JStr ''NotFound'')]),
      message = ''Request failed with status code 404''\<rparr>"

text \<open>The guard after one successful join of the sample meeting.\<close>

definition sample_guard :: guard_map where
  "sample_guard = [(''19:meeting_abc@thread.v2'', JStr sample_callId)]"

text \<open>
  External services whose token provider and meeting directory answer as above, while
  every request to the call-control API is rejected with the error \<open>e\<close>.
\<close>

definition rejecting_services :: "js_error \<Rightarrow> services" where
  "rejecting_services e =
     sample_services
       \<lparr>post_calls := (\<lambda>url pl token. Inl e),
        delete_call := (\<lambda>url token. Inl e),
        get_call := (\<lambda>url token. Inl e)\<rparr>"

text \<open>A guard that holds an entry for another meeting.\<close>

definition other_guard :: guard_map where
  "other_guard = [(''19:meeting_xyz@thread.v2'', JStr ''44444444-4444-4444-4444-444444444444'')]"

section \<open>The guard keeps one entry per thread\<close>

lemma reply_simps [simp]:
  "res (reply st b g evs) = \<lparr>status = st, body = Json b\<rparr>"
  "guard (reply st b g evs) = g"
  "io (reply st b g evs) = evs"
  by (simp_all add: reply_def)

lemma keys_map_set: "fst ` set (map_set g k v) = insert k (fst ` set g)"
proof (induction g)
  case Nil
  then show ?case by simp
next
  case (Cons e g)
  obtain k' v' where "e = (k', v')" by (cases e)
  with Cons show ?case by (simp add: insert_commute)
qed

lemma distinct_map_set: "distinct (map fst g) \<Longrightarrow> distinct (map fst (map_set g k v))"
proof (induction g)
  case Nil
  then show ?case by simp
next
  case (Cons e g)
  obtain k' v' where e: "e = (k', v')" by (cases e)
  from Cons have d: "distinct (map fst (map_set g k v))" and n: "k' \<notin> set (map fst g)" 
    using e by auto
  show ?case
  proof (cases "k' = k")
    case True
    with Cons.prems e show ?thesis by simp
  next
    case False
    with n have "k' \<notin> set (map fst (map_set g k v))" by (simp add: keys_map_set)
    with d e False show ?thesis by simp
  qed
qed

lemma distinct_map_delete: "distinct (map fst g) \<Longrightarrow> distinct (map fst (map_delete g k))"
  by (simp add: map_delete_def distinct_map_filter)

lemma distinct_remove_call: "distinct (map fst g) \<Longrightarrow> distinct (map fst (remove_call g c))"
  by (simp add: remove_call_def distinct_map_delete split: option.split)

lemma guard_join:
  "guard (join cfg rt svc g b) = g \<or> (\<exists>t v. guard (join cfg rt svc g b) = map_set g t v)"
  by (auto simp: join_def Let_def split: option.split list.split sum.split)

lemma guard_hangup:
  "guard (hangup svc g c) = g \<or> guard (hangup svc g c) = remove_call g c"
  by (simp add: hangup_def Let_def split: sum.split)

lemma guard_getState: "guard (getState svc g c) = g"
  by (simp add: getState_def Let_def split: sum.split)

lemma guard_transcripts: "guard (transcripts rt svc g q) = g"
  by (simp add: transcripts_def Let_def split: option.split list.split sum.split)

lemma guard_gated:
  "guard (gated cfg key g h) = g \<or> guard (gated cfg key g h) = guard h"
  by (simp add: gated_def split: option.split)

lemma distinct_serve:
  assumes "distinct (map fst g)"
  shows "distinct (map fst (guard (serve cfg rt svc g req)))"
proof (cases req)
  case (POST_join key b)
  with assms guard_join [of cfg rt svc g b] guard_gated [of cfg key g "join cfg rt svc g b"]
  show ?thesis by (auto simp: distinct_map_set)
next
  case (GET_call key c)
  with assms guard_gated [of cfg key g "getState svc g c"] show ?thesis
    by (auto simp: guard_getState)
next
  case (POST_hangup key c)
  with assms guard_hangup [of svc g c] guard_gated [of cfg key g "hangup svc g c"]
  show ?thesis by (auto simp: distinct_remove_call)
next
  case (GET_transcripts key q)
  with assms guard_gated [of cfg key g "transcripts rt svc g q"] show ?thesis
    by (auto simp: guard_transcripts)
qed

lemma distinct_run:
  "distinct (map fst g) \<Longrightarrow> distinct (map fst (run cfg rt g reqs))"
proof (induction reqs arbitrary: g)
  case Nil
  then show ?case by simp
next
  case (Cons sr reqs)
  obtain svc req where sr: "sr = (svc, req)" by (cases sr)
  from Cons.prems have "distinct (map fst (guard (serve cfg rt svc g req)))"
    by (rule distinct_serve)
  then show ?case using Cons.IH sr by simp
qed

lemma distinct_keys_count:
  "distinct (map fst g) \<Longrightarrow> length (filter (\<lambda>e. fst e = t) g) \<le> 1"
proof (induction g)
  case Nil
  then show ?case by simp
next
  case (Cons e g)
  show ?case
  proof (cases "fst e = t")
    case True
    with Cons.prems have "t \<notin> fst ` set g" by auto
    then have "filter (\<lambda>e. fst e = t) g = []" by (auto simp: filter_empty_conv)
    with True show ?thesis by simp
  next
    case False
    with Cons show ?thesis by simp
  qed
qed

text \<open>
  Claim C3. In every state reached from the empty guard by any sequence of requests to
  the join, call-state, hangup and transcript routes, whatever the external services
  answer, the guard holds at most one entry for each thread identifier.
\<close>

theorem guard_one_entry_per_thread:
  "length (filter (\<lambda>e. fst e = t) (run cfg rt [] reqs)) \<le> 1"
proof -
  have "distinct (map fst (run cfg rt [] reqs))"
    by (rule distinct_run) simp
  then show ?thesis by (rule distinct_keys_count)
qed

section \<open>Joining: the guard check and failed requests\<close>


lemma find_meeting_found:
  "get_onlineMeetings svc (onlineMeetings_url rt oid link) token = Inr (Some (m # ms)) \<Longrightarrow>
   findOnlineMeeting rt svc token oid link =
     \<lparr>meeting = Some m, tried = onlineMeetings_url rt oid link, error = JUndefined\<rparr>"
  by (simp add: findOnlineMeeting_def)

lemma map_has_iff: "map_has g k \<longleftrightarrow> map_of g k \<noteq> None"
  by (simp add: map_has_def map_of_eq_None_iff)

text \<open>The join handler once the meeting is located and carries a thread identifier.\<close>

lemma join_located:
  assumes "link \<noteq> []"
    and "truthy (tryExtractOrganizerOid rt link)"
    and "getGraphToken svc = Inr token"
    and "get_onlineMeetings svc (onlineMeetings_url rt (tryExtractOrganizerOid rt link) link) token
         = Inr (Some (m # ms))"
    and "threadId m = Some thread"
    and "thread \<noteq> []"
  shows "join cfg rt svc g (Some link) =
     (let organizerUserId = tryExtractOrganizerOid rt link;
          io1 = [Token_request, Http_get (onlineMeetings_url rt organizerUserId link) token] in
      if map_has g thread then
        reply 409
          (JObj [(''error'', JStr ''Bot already joined this meeting''),
                 (''callId'', map_get g thread),
                 (''threadId'', JStr thread)])
          g io1
      else
        (let pl = payload cfg organizerUserId m thread;
             io2 = io1 @ [Http_post createCallUrl pl token] in
         case post_calls svc createCallUrl pl token of
           Inl e \<Rightarrow> reply 500 (JObj [(''error'', error_payload e)]) g io2
         | Inr data \<Rightarrow>
             if data = JUndefined \<or> data = JNull then
               reply 500 (JObj [(''error'', JStr (cannot_read data ''id''))]) g io2
             else
               reply 200
                 (JObj [(''ok'', JBool True),
                        (''organizerUserIdUsed'', organizerUserId),
                        (''meeting'',
                           JObj [(''id'', JStr (meeting_id m)),
                                 (''subject'', str_or_null (subject m)),
                                 (''threadId'', JStr thread)]),
                        (''call'', data)])
                 (map_set g thread (js_get data ''id'')) io2))"
proof -
  obtain c cs where l: "link = c # cs" using assms(1) by (cases link) auto
  obtain d ds where t: "thread = d # ds" using assms(6) by (cases thread) auto
  have f: "findOnlineMeeting rt svc token (tryExtractOrganizerOid rt (c # cs)) (c # cs) =
      \<lparr>meeting = Some m,
       tried = onlineMeetings_url rt (tryExtractOrganizerOid rt (c # cs)) (c # cs),
       error = JUndefined\<rparr>"
    using find_meeting_found [OF assms(4)] l by simp
  show ?thesis
    using assms(2,3,5) l t
    by (simp add: join_def Let_def f split: sum.split)
qed

lemma map_of_map_set: "map_of (map_set g k v) k = Some v"
  by (induction g) auto

text \<open>
  Claim C1. When the link resolves to a meeting whose thread identifier already has an
  entry in the guard, the join answers the duplicate-join conflict (status 409) with the
  call identifier of that entry and the thread identifier, leaves the guard as it is, and
  sends nothing after the meeting lookup: no call-creation request is issued. The guard
  is consulted before the POST: the POST is sent only when the guard has no entry for the
  thread. A successful join registers the new call under the thread, so that a second
  join of the same meeting meets that entry.
\<close>

theorem join_duplicate_conflict:
  assumes "link \<noteq> []"
    and "truthy (tryExtractOrganizerOid rt link)"
    and "getGraphToken svc = Inr token"
    and "get_onlineMeetings svc (onlineMeetings_url rt (tryExtractOrganizerOid rt link) link) token
         = Inr (Some (m # ms))"
    and "threadId m = Some thread"
    and "thread \<noteq> []"
  shows "(map_of g thread = Some existing \<longrightarrow>
            res (join cfg rt svc g (Some link)) =
              \<lparr>status = 409,
               body = Json (JObj [(''error'', JStr ''Bot already joined this meeting''),
                                  (''callId'', existing),
                                  (''threadId'', JStr thread)])\<rparr>
            \<and> guard (join cfg rt svc g (Some link)) = g
            \<and> io (join cfg rt svc g (Some link)) =
                [Token_request,
                 Http_get (onlineMeetings_url rt (tryExtractOrganizerOid rt link) link) token]
            \<and> (\<nexists>url pl tk. Http_post url pl tk \<in> set (io (join cfg rt svc g (Some link)))))
         \<and> (map_of g thread = None \<longrightarrow>
            io (join cfg rt svc g (Some link)) =
                [Token_request,
                 Http_get (onlineMeetings_url rt (tryExtractOrganizerOid rt link) link) token,
                 Http_post createCallUrl
                   (payload cfg (tryExtractOrganizerOid rt link) m thread) token])
         \<and> (map_of g thread = None
             \<and> post_calls svc createCallUrl
                  (payload cfg (tryExtractOrganizerOid rt link) m thread) token = Inr data
             \<and> data \<noteq> JUndefined \<and> data \<noteq> JNull \<longrightarrow>
            status (res (join cfg rt svc g (Some link))) = 200
            \<and> guard (join cfg rt svc g (Some link)) = map_set g thread (js_get data ''id'')
            \<and> map_of (guard (join cfg rt svc g (Some link))) thread = Some (js_get data ''id''))"
proof -
  note located = join_located [OF assms, of cfg g]
  have duplicate: "res (join cfg rt svc g (Some link)) =
        \<lparr>status = 409,
         body = Json (JObj [(''error'', JStr ''Bot already joined this meeting''),
                            (''callId'', existing),
                            (''threadId'', JStr thread)])\<rparr>
      \<and> guard (join cfg rt svc g (Some link)) = g
      \<and> io (join cfg rt svc g (Some link)) =
          [Token_request,
           Http_get (onlineMeetings_url rt (tryExtractOrganizerOid rt link) link) token]
      \<and> (\<nexists>url pl tk. Http_post url pl tk \<in> set (io (join cfg rt svc g (Some link))))"
    if "map_of g thread = Some existing"
  proof -
    from that have "map_has g thread" and "map_get g thread = existing"
      by (simp_all add: map_has_iff map_get_def)
    then show ?thesis by (simp add: located Let_def)
  qed
  have posted: "io (join cfg rt svc g (Some link)) =
      [Token_request,
       Http_get (onlineMeetings_url rt (tryExtractOrganizerOid rt link) link) token,
       Http_post createCallUrl (payload cfg (tryExtractOrganizerOid rt link) m thread) token]"
    if "map_of g thread = None"
  proof -
    from that have "\<not> map_has g thread" by (simp add: map_has_iff)
    then show ?thesis by (simp add: located Let_def split: sum.split)
  qed
  have registered: "status (res (join cfg rt svc g (Some link))) = 200
      \<and> guard (join cfg rt svc g (Some link)) = map_set g thread (js_get data ''id'')
      \<and> map_of (guard (join cfg rt svc g (Some link))) thread = Some (js_get data ''id'')"
    if "map_of g thread = None"
      and "post_calls svc createCallUrl (payload cfg (tryExtractOrganizerOid rt link) m thread)
             token = Inr data"
      and "data \<noteq> JUndefined" "data \<noteq> JNull"
  proof -
    from that(1) have "\<not> map_has g thread" by (simp add: map_has_iff)
    with that(2-4) show ?thesis by (simp add: located Let_def map_of_map_set)
  qed
  from duplicate posted registered show ?thesis by blast
qed

theorem join_duplicate_conflict_witness:
  "link_ok \<noteq> []
   \<and> truthy (tryExtractOrganizerOid sample_runtime link_ok)
   \<and> getGraphToken sample_services = Inr ''token''
   \<and> get_onlineMeetings sample_services
        (onlineMeetings_url sample_runtime (tryExtractOrganizerOid sample_runtime link_ok) link_ok)
        ''token'' = Inr (Some [sample_meeting])
   \<and> threadId sample_meeting = Some ''19:meeting_abc@thread.v2''
   \<and> map_of [] ''19:meeting_abc@thread.v2'' = (None :: jsval option)
   \<and> status (res (join sample_config sample_runtime sample_services [] (Some link_ok))) = 200
   \<and> guard (join sample_config sample_runtime sample_services [] (Some link_ok)) = sample_guard
   \<and> map_of sample_guard ''19:meeting_abc@thread.v2'' = Some (JStr sample_callId)
   \<and> res (join sample_config sample_runtime sample_services sample_guard (Some link_ok)) =
        \<lparr>status = 409,
         body = Json (JObj [(''error'', JStr ''Bot already joined this meeting''),
                            (''callId'', JStr sample_callId),
                            (''threadId'', JStr ''19:meeting_abc@thread.v2'')])\<rparr>
   \<and> guard (join sample_config sample_runtime sample_services sample_guard (Some link_ok))
       = sample_guard
   \<and> (\<nexists>url pl tk. Http_post url pl tk
         \<in> set (io (join sample_config sample_runtime sample_services sample_guard (Some link_ok))))"
proof -
  let ?thread = "''19:meeting_abc@thread.v2''"
  let ?oid = "tryExtractOrganizerOid sample_runtime link_ok"
  have l: "link_ok \<noteq> []" by (simp add: link_ok_def)
  have oid: "truthy ?oid"
    by (simp add: tryExtractOrganizerOid_def sample_runtime_def js_or_def context_ok_def
        context_percent_def context_no_oid_def context_short_oid_def context_escape_def
        context_escape_decoded_def context_number_def)
  have tok: "getGraphToken sample_services = Inr ''token''"
    by (simp add: sample_services_def)
  have fnd: "get_onlineMeetings sample_services (onlineMeetings_url sample_runtime ?oid link_ok)
        ''token'' = Inr (Some [sample_meeting])"
    by (simp add: sample_services_def)
  have thr: "threadId sample_meeting = Some ?thread"
    by (simp add: sample_meeting_def)
  have ent: "map_of sample_guard ?thread = Some (JStr sample_callId)"
    by (simp add: sample_guard_def)
  have post: "post_calls sample_services createCallUrl
      (payload sample_config ?oid sample_meeting ?thread) ''token'' = Inr sample_call"
    by (simp add: sample_services_def)
  have call: "sample_call \<noteq> JUndefined" "sample_call \<noteq> JNull"
    "js_get sample_call ''id'' = JStr sample_callId"
    by (simp_all add: sample_call_def)
  have first: "status (res (join sample_config sample_runtime sample_services [] (Some link_ok)))
        = 200
      \<and> guard (join sample_config sample_runtime sample_services [] (Some link_ok)) = sample_guard"
    using join_duplicate_conflict [OF l oid tok fnd thr, of "[]" _ sample_config sample_call]
      post call
    by (simp add: sample_guard_def)
  have second: "res (join sample_config sample_runtime sample_services sample_guard (Some link_ok))
        = \<lparr>status = 409,
           body = Json (JObj [(''error'', JStr ''Bot already joined this meeting''),
                              (''callId'', JStr sample_callId),
                              (''threadId'', JStr ?thread)])\<rparr>
      \<and> guard (join sample_config sample_runtime sample_services sample_guard (Some link_ok))
          = sample_guard
      \<and> (\<nexists>url pl tk. Http_post url pl tk
            \<in> set (io (join sample_config sample_runtime sample_services sample_guard
                         (Some link_ok))))"
    using join_duplicate_conflict [OF l oid tok fnd thr, of sample_guard "JStr sample_callId"
        sample_config] ent
    by simp
  from l oid tok fnd thr ent first second show ?thesis by simp
qed

lemma join_post_failed:
  assumes "Http_post url pl token \<in> set (io (join cfg rt svc g b))"
    and "post_calls svc url pl token = Inl e"
  shows "guard (join cfg rt svc g b) = g
         \<and> res (join cfg rt svc g b) =
             \<lparr>status = 500, body = Json (JObj [(''error'', error_payload e)])\<rparr>"
  using assms
  by (auto simp: join_def Let_def split: option.splits list.splits sum.splits if_splits)

lemma hangup_delete_failed:
  assumes "Http_delete url token \<in> set (io (hangup svc g callId))"
    and "delete_call svc url token = Inl e"
  shows "guard (hangup svc g callId) = g
         \<and> res (hangup svc g callId) =
             \<lparr>status = 500, body = Json (JObj [(''error'', error_payload e)])\<rparr>"
  using assms
  by (auto simp: hangup_def Let_def split: sum.splits if_splits)

text \<open>
  Claim C2. If the call-creation POST that a join issues is rejected, or the DELETE that a
  hangup issues is rejected, the guard after the operation is the guard before it, and the
  answer is the error (status 500) with the upstream payload.
\<close>

theorem failed_request_keeps_guard:
  "(Http_post url pl token \<in> set (io (join cfg rt svc g b)) \<and> post_calls svc url pl token = Inl e
      \<longrightarrow> guard (join cfg rt svc g b) = g
          \<and> res (join cfg rt svc g b) =
              \<lparr>status = 500, body = Json (JObj [(''error'', error_payload e)])\<rparr>)
   \<and> (Http_delete url' token' \<in> set (io (hangup svc' g' callId))
        \<and> delete_call svc' url' token' = Inl e'
      \<longrightarrow> guard (hangup svc' g' callId) = g'
          \<and> res (hangup svc' g' callId) =
              \<lparr>status = 500, body = Json (JObj [(''error'', error_payload e')])\<rparr>)"
  using join_post_failed [of url pl token cfg rt svc g b e]
    hangup_delete_failed [of url' token' svc' g' callId e']
  by blast

lemma sample_oid:
  "tryExtractOrganizerOid sample_runtime link_ok = JStr ''22222222-2222-2222-2222-222222222222''"
  by (simp add: tryExtractOrganizerOid_def sample_runtime_def js_or_def context_ok_def
        context_percent_def context_no_oid_def context_short_oid_def context_escape_def
        context_escape_decoded_def context_number_def)

lemma isGuid_sample_callId: "isGuid sample_callId"
  by (simp add: isGuid_def sample_callId_def hex_or_hyphen_def)

theorem failed_request_keeps_guard_witness:
  "Http_post createCallUrl
       (payload sample_config (JStr ''22222222-2222-2222-2222-222222222222'') sample_meeting
          ''19:meeting_abc@thread.v2'') ''token''
     \<in> set (io (join sample_config sample_runtime (rejecting_services unavailable) other_guard
                  (Some link_ok)))
   \<and> post_calls (rejecting_services unavailable) createCallUrl
       (payload sample_config (JStr ''22222222-2222-2222-2222-222222222222'') sample_meeting
          ''19:meeting_abc@thread.v2'') ''token'' = Inl unavailable
   \<and> guard (join sample_config sample_runtime (rejecting_services unavailable) other_guard
              (Some link_ok)) = other_guard
   \<and> res (join sample_config sample_runtime (rejecting_services unavailable) other_guard
            (Some link_ok)) =
        \<lparr>status = 500,
         body = Json (JObj [(''error'', JObj [(''error'', JStr ''ServiceUnavailable'')])])\<rparr>
   \<and> Http_delete (call_url sample_callId) ''token''
       \<in> set (io (hangup (rejecting_services unavailable) sample_guard sample_callId))
   \<and> delete_call (rejecting_services unavailable) (call_url sample_callId) ''token''
       = Inl unavailable
   \<and> guard (hangup (rejecting_services unavailable) sample_guard sample_callId) = sample_guard
   \<and> res (hangup (rejecting_services unavailable) sample_guard sample_callId) =
        \<lparr>status = 500,
         body = Json (JObj [(''error'', JObj [(''error'', JStr ''ServiceUnavailable'')])])\<rparr>"
proof -
  let ?svc = "rejecting_services unavailable"
  let ?pl = "payload sample_config (JStr ''22222222-2222-2222-2222-222222222222'') sample_meeting
          ''19:meeting_abc@thread.v2''"
  have l: "link_ok \<noteq> []" by (simp add: link_ok_def)
  have oid: "truthy (tryExtractOrganizerOid sample_runtime link_ok)"
    by (simp add: sample_oid)
  have tok: "getGraphToken ?svc = Inr ''token''"
    by (simp add: rejecting_services_def sample_services_def)
  have fnd: "get_onlineMeetings ?svc
        (onlineMeetings_url sample_runtime (tryExtractOrganizerOid sample_runtime link_ok) link_ok)
        ''token'' = Inr (Some [sample_meeting])"
    by (simp add: rejecting_services_def sample_services_def)
  have thr: "threadId sample_meeting = Some ''19:meeting_abc@thread.v2''"
    by (simp add: sample_meeting_def)
  have post: "post_calls ?svc createCallUrl ?pl ''token'' = Inl unavailable"
    by (simp add: rejecting_services_def sample_services_def)
  have del: "delete_call ?svc (call_url sample_callId) ''token'' = Inl unavailable"
    by (simp add: rejecting_services_def sample_services_def)
  have nohas: "\<not> map_has other_guard ''19:meeting_abc@thread.v2''"
    by (simp add: map_has_def other_guard_def)
  have io_join: "Http_post createCallUrl ?pl ''token''
     \<in> set (io (join sample_config sample_runtime ?svc other_guard (Some link_ok)))"
    using nohas post
    by (simp add: join_located [OF l oid tok fnd thr] Let_def sample_oid)
  have io_hangup: "Http_delete (call_url sample_callId) ''token''
       \<in> set (io (hangup ?svc sample_guard sample_callId))"
    using del tok by (simp add: hangup_def isGuid_sample_callId Let_def)
  have payload: "error_payload unavailable = JObj [(''error'', JStr ''ServiceUnavailable'')]"
    by (simp add: error_payload_def unavailable_def js_or_def)
  show ?thesis
    using failed_request_keeps_guard [of createCallUrl ?pl "''token''" sample_config
        sample_runtime ?svc other_guard "Some link_ok" unavailable
        "call_url sample_callId" "''token''" ?svc sample_guard sample_callId unavailable]
      io_join post io_hangup del payload
    by simp
qed

section \<open>The join payload\<close>

lemma join_posts_payload:
  assumes "Http_post url pl token \<in> set (io (join cfg rt svc g (Some link)))"
  shows "url = createCallUrl
         \<and> (\<exists>m thread. pl = payload cfg (tryExtractOrganizerOid rt link) m thread
               \<and> meeting (findOnlineMeeting rt svc token (tryExtractOrganizerOid rt link) link)
                   = Some m
               \<and> threadId m = Some thread)"
  using assms
  by (auto simp: join_def Let_def split: option.splits list.splits sum.splits if_splits)

lemma payload_lobby:
  assumes "joinMeetingId m = Some j" and "j \<noteq> []"
  shows "payload cfg oid m thread =
     JObj [(''@odata.type'', JStr ''#microsoft.graph.call''),
           (''callbackUri'', JStr (CALLING_CALLBACK_URI cfg)),
           (''requestedModalities'', JArr [JStr ''audio'']),
           (''mediaConfig'',
              JObj [(''@odata.type'', JStr ''#microsoft.graph.serviceHostedMediaConfig'')]),
           (''meetingInfo'',
              JObj [(''@odata.type'', JStr ''#microsoft.graph.joinMeetingIdMeetingInfo''),
                    (''joinMeetingId'', JStr j),
                    (''passcode'', str_nullish (passcode m))]),
           (''tenantId'', tenantId cfg)]"
  using assms by (cases j) (simp_all add: payload_def)

lemma payload_organizer:
  assumes "joinMeetingId m = None \<or> joinMeetingId m = Some []"
  shows "payload cfg oid m thread =
     JObj [(''@odata.type'', JStr ''#microsoft.graph.call''),
           (''callbackUri'', JStr (CALLING_CALLBACK_URI cfg)),
           (''requestedModalities'', JArr [JStr ''audio'']),
           (''mediaConfig'',
              JObj [(''@odata.type'', JStr ''#microsoft.graph.serviceHostedMediaConfig'')]),
           (''chatInfo'',
              JObj [(''@odata.type'', JStr ''#microsoft.graph.chatInfo''),
                    (''threadId'', JStr thread),
                    (''messageId'', JStr ''0'')]),
           (''meetingInfo'',
              JObj [(''@odata.type'', JStr ''#microsoft.graph.organizerMeetingInfo''),
                    (''organizer'',
                       JObj [(''@odata.type'', JStr ''#microsoft.graph.identitySet''),
                             (''user'',
                                JObj [(''@odata.type'', JStr ''#microsoft.graph.identity''),
                                      (''id'', oid),
                                      (''tenantId'', tenantId cfg)])]),
                    (''allowConversationWithoutHost'', JBool True)]),
           (''tenantId'', tenantId cfg)]"
  using assms by (auto simp: payload_def)

text \<open>
  Claim C4. The payload of the call-creation request is chosen in this order. If the
  meeting record carries a (non-empty) \<^verbatim>\<open>joinMeetingId\<close>, the meeting is addressed by that
  \<^verbatim>\<open>joinMeetingId\<close>, with a \<^verbatim>\<open>passcode\<close> field that is the record's passcode, or null
  when the record has none: the field is always there. The payload then has no
  \<^verbatim>\<open>chatInfo\<close>. Otherwise the meeting is addressed by the thread identifier with the
  message reference \<^verbatim>\<open>"0"\<close>, the organizer is the resolved organizer identity in the
  configured tenant, and \<^verbatim>\<open>allowConversationWithoutHost\<close> is true. Every POST that a
  join issues goes to the call-creation URL and carries this payload for the located
  meeting record.
\<close>

theorem join_strategy_selection:
  "(joinMeetingId m = Some j \<and> j \<noteq> [] \<longrightarrow>
      js_get (payload cfg oid m thread) ''meetingInfo'' =
        JObj [(''@odata.type'', JStr ''#microsoft.graph.joinMeetingIdMeetingInfo''),
              (''joinMeetingId'', JStr j),
              (''passcode'', (case passcode m of Some p \<Rightarrow> JStr p | None \<Rightarrow> JNull))]
      \<and> js_get (payload cfg oid m thread) ''chatInfo'' = JUndefined)
   \<and> (joinMeetingId m = None \<or> joinMeetingId m = Some [] \<longrightarrow>
      js_get (payload cfg oid m thread) ''chatInfo'' =
        JObj [(''@odata.type'', JStr ''#microsoft.graph.chatInfo''),
              (''threadId'', JStr thread),
              (''messageId'', JStr ''0'')]
      \<and> js_get (payload cfg oid m thread) ''meetingInfo'' =
        JObj [(''@odata.type'', JStr ''#microsoft.graph.organizerMeetingInfo''),
              (''organizer'',
                 JObj [(''@odata.type'', JStr ''#microsoft.graph.identitySet''),
                       (''user'',
                          JObj [(''@odata.type'', JStr ''#microsoft.graph.identity''),
                                (''id'', oid),
                                (''tenantId'', tenantId cfg)])]),
              (''allowConversationWithoutHost'', JBool True)])
   \<and> js_get (payload cfg oid m thread) ''callbackUri'' = JStr (CALLING_CALLBACK_URI cfg)
   \<and> js_get (payload cfg oid m thread) ''requestedModalities'' = JArr [JStr ''audio'']
   \<and> js_get (payload cfg oid m thread) ''mediaConfig'' =
        JObj [(''@odata.type'', JStr ''#microsoft.graph.serviceHostedMediaConfig'')]
   \<and> (Http_post url pl token \<in> set (io (join cfg rt svc g (Some link))) \<longrightarrow>
        url = createCallUrl
        \<and> (\<exists>m' thread'. pl = payload cfg (tryExtractOrganizerOid rt link) m' thread'
              \<and> meeting (findOnlineMeeting rt svc token (tryExtractOrganizerOid rt link) link)
                  = Some m'
              \<and> threadId m' = Some thread'))"
proof -
  have lobby: "joinMeetingId m = Some j \<and> j \<noteq> [] \<longrightarrow>
      js_get (payload cfg oid m thread) ''meetingInfo'' =
        JObj [(''@odata.type'', JStr ''#microsoft.graph.joinMeetingIdMeetingInfo''),
              (''joinMeetingId'', JStr j),
              (''passcode'', (case passcode m of Some p \<Rightarrow> JStr p | None \<Rightarrow> JNull))]
      \<and> js_get (payload cfg oid m thread) ''chatInfo'' = JUndefined"
    by (simp add: payload_lobby str_nullish_def)
  have organizer: "joinMeetingId m = None \<or> joinMeetingId m = Some [] \<longrightarrow>
      js_get (payload cfg oid m thread) ''chatInfo'' =
        JObj [(''@odata.type'', JStr ''#microsoft.graph.chatInfo''),
              (''threadId'', JStr thread),
              (''messageId'', JStr ''0'')]
      \<and> js_get (payload cfg oid m thread) ''meetingInfo'' =
        JObj [(''@odata.type'', JStr ''#microsoft.graph.organizerMeetingInfo''),
              (''organizer'',
                 JObj [(''@odata.type'', JStr ''#microsoft.graph.identitySet''),
                       (''user'',
                          JObj [(''@odata.type'', JStr ''#microsoft.graph.identity''),
                                (''id'', oid),
                                (''tenantId'', tenantId cfg)])]),
              (''allowConversationWithoutHost'', JBool True)]"
    by (auto simp: payload_organizer)
  have shared: "js_get (payload cfg oid m thread) ''callbackUri'' = JStr (CALLING_CALLBACK_URI cfg)
     \<and> js_get (payload cfg oid m thread) ''requestedModalities'' = JArr [JStr ''audio'']
     \<and> js_get (payload cfg oid m thread) ''mediaConfig'' =
        JObj [(''@odata.type'', JStr ''#microsoft.graph.serviceHostedMediaConfig'')]"
    by (simp add: payload_def split: option.split list.split)
  show ?thesis
    using lobby organizer shared join_posts_payload [of url pl token cfg rt svc g link]
    by blast
qed

lemma sample_join_located:
  assumes "getGraphToken svc = Inr ''token''"
    and "get_onlineMeetings svc = (\<lambda>url token. Inr (Some [sample_meeting]))"
  shows "join sample_config sample_runtime svc g (Some link_ok) =
     (let organizerUserId = JStr ''22222222-2222-2222-2222-222222222222'';
          thread = ''19:meeting_abc@thread.v2'';
          io1 = [Token_request,
                 Http_get (onlineMeetings_url sample_runtime organizerUserId link_ok) ''token''] in
      if map_has g thread then
        reply 409
          (JObj [(''error'', JStr ''Bot already joined this meeting''),
                 (''callId'', map_get g thread),
                 (''threadId'', JStr thread)])
          g io1
      else
        (let pl = payload sample_config organizerUserId sample_meeting thread;
             io2 = io1 @ [Http_post createCallUrl pl ''token''] in
         case post_calls svc createCallUrl pl ''token'' of
           Inl e \<Rightarrow> reply 500 (JObj [(''error'', error_payload e)]) g io2
         | Inr data \<Rightarrow>
             if data = JUndefined \<or> data = JNull then
               reply 500 (JObj [(''error'', JStr (cannot_read data ''id''))]) g io2
             else
               reply 200
                 (JObj [(''ok'', JBool True),
                        (''organizerUserIdUsed'', organizerUserId),
                        (''meeting'',
                           JObj [(''id'', JStr (meeting_id sample_meeting)),
                                 (''subject'', str_or_null (subject sample_meeting)),
                                 (''threadId'', JStr thread)]),
                        (''call'', data)])
                 (map_set g thread (js_get data ''id'')) io2))"
proof -
  have l: "link_ok \<noteq> []" by (simp add: link_ok_def)
  have oid: "truthy (tryExtractOrganizerOid sample_runtime link_ok)"
    by (simp add: sample_oid)
  have fnd: "get_onlineMeetings svc
      (onlineMeetings_url sample_runtime (tryExtractOrganizerOid sample_runtime link_ok) link_ok)
      ''token'' = Inr (Some [sample_meeting])"
    by (simp add: assms(2))
  have thr: "threadId sample_meeting = Some ''19:meeting_abc@thread.v2''"
    by (simp add: sample_meeting_def)
  show ?thesis
    by (simp add: join_located [OF l oid assms(1) fnd thr] sample_oid Let_def)
qed

theorem join_strategy_selection_witness:
  "joinMeetingId sample_meeting = Some ''123456789''
   \<and> passcode sample_meeting = None
   \<and> js_get (payload sample_config (JStr ''22222222-2222-2222-2222-222222222222'') sample_meeting
               ''19:meeting_abc@thread.v2'') ''meetingInfo'' =
        JObj [(''@odata.type'', JStr ''#microsoft.graph.joinMeetingIdMeetingInfo''),
              (''joinMeetingId'', JStr ''123456789''),
              (''passcode'', JNull)]
   \<and> joinMeetingId (sample_meeting\<lparr>joinMeetingId := None\<rparr>) = None
   \<and> js_get (payload sample_config (JStr ''22222222-2222-2222-2222-222222222222'')
               (sample_meeting\<lparr>joinMeetingId := None\<rparr>) ''19:meeting_abc@thread.v2'')
        ''chatInfo'' =
        JObj [(''@odata.type'', JStr ''#microsoft.graph.chatInfo''),
              (''threadId'', JStr ''19:meeting_abc@thread.v2''),
              (''messageId'', JStr ''0'')]
   \<and> Http_post createCallUrl
        (payload sample_config (JStr ''22222222-2222-2222-2222-222222222222'') sample_meeting
           ''19:meeting_abc@thread.v2'') ''token''
       \<in> set (io (join sample_config sample_runtime sample_services [] (Some link_ok)))
   \<and> meeting (findOnlineMeeting sample_runtime sample_services ''token''
                (tryExtractOrganizerOid sample_runtime link_ok) link_ok) = Some sample_meeting"
proof -
  let ?oid = "JStr ''22222222-2222-2222-2222-222222222222''"
  let ?thread = "''19:meeting_abc@thread.v2''"
  let ?pl = "payload sample_config ?oid sample_meeting ?thread"
  have j: "joinMeetingId sample_meeting = Some ''123456789''"
    and p: "passcode sample_meeting = None"
    by (simp_all add: sample_meeting_def)
  have n: "joinMeetingId (sample_meeting\<lparr>joinMeetingId := None\<rparr>) = None"
    by simp
  have post: "Http_post createCallUrl ?pl ''token''
       \<in> set (io (join sample_config sample_runtime sample_services [] (Some link_ok)))"
    by (simp add: sample_join_located sample_services_def Let_def map_has_def sample_call_def)
  have fnd: "meeting (findOnlineMeeting sample_runtime sample_services ''token''
                (tryExtractOrganizerOid sample_runtime link_ok) link_ok) = Some sample_meeting"
    by (simp add: findOnlineMeeting_def sample_services_def)
  show ?thesis
    using join_strategy_selection [of sample_meeting "''123456789''" sample_config ?oid ?thread
        createCallUrl ?pl "''token''" sample_runtime sample_services "[]" link_ok]
      join_strategy_selection [of "sample_meeting\<lparr>joinMeetingId := None\<rparr>" "[]"
        sample_config ?oid ?thread createCallUrl ?pl "''token''" sample_runtime sample_services
        "[]" link_ok]
      j p n post fnd
    by simp
qed

section \<open>Call state and hangup\<close>

lemma getState_failed:
  assumes "isGuid callId"
    and "getGraphToken svc = Inr token"
    and "get_call svc (call_url callId) token = Inl e"
  shows "getState svc g callId =
     (if map_option fst (response e) = Some 404 then
        reply 404 (JObj [(''ok'', JBool True), (''state'', JStr ''not_found_or_ended'')]) g
          [Token_request, Http_get (call_url callId) token]
      else
        reply 500 (JObj [(''error'', error_payload e)]) g
          [Token_request, Http_get (call_url callId) token])"
  using assms by (simp add: getState_def Let_def)

text \<open>
  Claim C5. For a GUID-shaped call identifier whose state query is rejected: when the
  rejection is the upstream not-found (status 404), the answer is not the error object but
  \<^verbatim>\<open>{ ok: true, state: "not_found_or_ended" }\<close> (sent with HTTP status 404); every other
  rejection is answered with status 500 and \<^verbatim>\<open>{ error: ... }\<close> carrying the upstream
  payload, or the error message (which names the upstream status) when the rejection has
  no payload. The guard is not touched.
\<close>

theorem getState_not_found_or_error:
  assumes "isGuid callId"
    and "getGraphToken svc = Inr token"
    and "get_call svc (call_url callId) token = Inl e"
  shows "(map_option fst (response e) = Some 404 \<longrightarrow>
            res (getState svc g callId) =
              \<lparr>status = 404,
               body = Json (JObj [(''ok'', JBool True),
                                  (''state'', JStr ''not_found_or_ended'')])\<rparr>)
         \<and> (map_option fst (response e) \<noteq> Some 404 \<longrightarrow>
            res (getState svc g callId) =
              \<lparr>status = 500,
               body = Json (JObj [(''error'',
                 (case response e of
                    Some (st, d) \<Rightarrow> if truthy d then d else JStr (message e)
                  | None \<Rightarrow> JStr (message e)))])\<rparr>)
         \<and> guard (getState svc g callId) = g"
proof -
  note failed = getState_failed [OF assms, of g]
  have not_found: "map_option fst (response e) = Some 404 \<longrightarrow>
      res (getState svc g callId) =
        \<lparr>status = 404,
         body = Json (JObj [(''ok'', JBool True), (''state'', JStr ''not_found_or_ended'')])\<rparr>"
    by (simp add: failed)
  have payload: "error_payload e =
      (case response e of
         Some (st, d) \<Rightarrow> if truthy d then d else JStr (message e)
       | None \<Rightarrow> JStr (message e))"
    by (simp add: error_payload_def js_or_def split: option.split)
  have other: "map_option fst (response e) \<noteq> Some 404 \<longrightarrow>
      res (getState svc g callId) =
        \<lparr>status = 500,
         body = Json (JObj [(''error'',
           (case response e of
              Some (st, d) \<Rightarrow> if truthy d then d else JStr (message e)
            | None \<Rightarrow> JStr (message e)))])\<rparr>"
    using payload by (simp add: failed)
  have kept: "guard (getState svc g callId) = g"
    by (simp add: failed)
  from not_found other kept show ?thesis by blast
qed

lemma error_payload_unavailable:
  "error_payload unavailable = JObj [(''error'', JStr ''ServiceUnavailable'')]"
  by (simp add: error_payload_def unavailable_def js_or_def)

lemma error_payload_not_found:
  "error_payload not_found = JObj [(''error'', JStr ''NotFound'')]"
  by (simp add: error_payload_def not_found_def js_or_def)

theorem getState_not_found_or_error_witness:
  "isGuid sample_callId
   \<and> getGraphToken (rejecting_services not_found) = Inr ''token''
   \<and> get_call (rejecting_services not_found) (call_url sample_callId) ''token'' = Inl not_found
   \<and> map_option fst (response not_found) = Some 404
   \<and> res (getState (rejecting_services not_found) sample_guard sample_callId) =
        \<lparr>status = 404,
         body = Json (JObj [(''ok'', JBool True), (''state'', JStr ''not_found_or_ended'')])\<rparr>
   \<and> getGraphToken (rejecting_services unavailable) = Inr ''token''
   \<and> get_call (rejecting_services unavailable) (call_url sample_callId) ''token''
       = Inl unavailable
   \<and> map_option fst (response unavailable) \<noteq> Some 404
   \<and> res (getState (rejecting_services unavailable) sample_guard sample_callId) =
        \<lparr>status = 500,
         body = Json (JObj [(''error'', JObj [(''error'', JStr ''ServiceUnavailable'')])])\<rparr>
   \<and> guard (getState (rejecting_services unavailable) sample_guard sample_callId) = sample_guard"
proof -
  have tok: "getGraphToken (rejecting_services e) = Inr ''token''" for e
    by (simp add: rejecting_services_def sample_services_def)
  have get: "get_call (rejecting_services e) (call_url sample_callId) ''token'' = Inl e" for e
    by (simp add: rejecting_services_def sample_services_def)
  have nf: "map_option fst (response not_found) = Some 404"
    by (simp add: not_found_def)
  have un: "map_option fst (response unavailable) \<noteq> Some 404"
    by (simp add: unavailable_def)
  have "response unavailable = Some (503, JObj [(''error'', JStr ''ServiceUnavailable'')])"
    by (simp add: unavailable_def)
  then show ?thesis
    using getState_not_found_or_error [OF isGuid_sample_callId tok get, of not_found sample_guard]
      getState_not_found_or_error [OF isGuid_sample_callId tok get, of unavailable sample_guard]
      isGuid_sample_callId tok get nf un
    by simp
qed

text \<open>
  Claim C6 asks that a hangup whose DELETE is answered with the upstream not-found be
  reported as a success (the call has already ended). The hangup handler has no such case:
  unlike the call-state handler, its \<^verbatim>\<open>catch\<close> does not look at the status, so the answer
  is the error with status 500, and the guard entry of the ended call stays.
\<close>

theorem hangup_not_found_is_error:
  "res (hangup (rejecting_services not_found) sample_guard sample_callId) =
     \<lparr>status = 500, body = Json (JObj [(''error'', JObj [(''error'', JStr ''NotFound'')])])\<rparr>
   \<and> guard (hangup (rejecting_services not_found) sample_guard sample_callId) = sample_guard
   \<and> res (getState (rejecting_services not_found) sample_guard sample_callId) =
     \<lparr>status = 404,
      body = Json (JObj [(''ok'', JBool True), (''state'', JStr ''not_found_or_ended'')])\<rparr>"
proof -
  have "map_option fst (response not_found) = Some 404"
    by (simp add: not_found_def)
  then show ?thesis
    by (simp add: hangup_def getState_def isGuid_sample_callId rejecting_services_def
        sample_services_def Let_def error_payload_not_found)
qed

section \<open>Resolving the organizer identity\<close>

lemma join_unresolved:
  assumes "link \<noteq> []" and "\<not> truthy (tryExtractOrganizerOid rt link)"
  shows "join cfg rt svc g (Some link) =
     reply 400
       (JObj [(''error'', JStr ''Could not extract organizer Oid from joinWebUrl context.'')])
       g []"
proof -
  obtain c cs where "link = c # cs" using assms(1) by (cases link) auto
  with assms(2) show ?thesis by (simp add: join_def Let_def)
qed

lemma oid_from_context:
  assumes "new_URL rt link = Some u"
    and "searchParams_get rt u ''context'' = Some c"
    and "c \<noteq> []"
    and "decodeURIComponent rt c = Some d"
    and "JSON_parse rt d = Some ctx"
  shows "tryExtractOrganizerOid rt link =
           (if truthy (js_get ctx ''Oid'') then js_get ctx ''Oid'' else JNull)"
proof -
  obtain x xs where "c = x # xs" using assms(3) by (cases c) auto
  with assms(1,2,4,5) show ?thesis
    by (simp add: tryExtractOrganizerOid_def js_or_def)
qed

lemma decode_throws:
  assumes "new_URL rt link = Some u" and "searchParams_get rt u ''context'' = Some c"
    and "c \<noteq> []" and "decodeURIComponent rt c = None"
  shows "tryExtractOrganizerOid rt link = JNull"
proof -
  obtain x xs where "c = x # xs" using assms(3) by (cases c) auto
  with assms show ?thesis by (simp add: tryExtractOrganizerOid_def)
qed

lemma sample_new_URL:
  "new_URL sample_runtime link_malformed = None"
  "new_URL sample_runtime link_no_context = Some []"
  "new_URL sample_runtime link_percent = Some [(''context'', context_percent)]"
  "new_URL sample_runtime link_bad_json = Some [(''context'', ''oops'')]"
  "new_URL sample_runtime link_no_oid = Some [(''context'', context_no_oid)]"
  "new_URL sample_runtime link_short_oid = Some [(''context'', context_short_oid)]"
  "new_URL sample_runtime link_ok = Some [(''context'', context_ok)]"
  "new_URL sample_runtime link_escape = Some [(''context'', context_escape)]"
  "new_URL sample_runtime link_number = Some [(''context'', context_number)]"
  by (simp_all add: sample_runtime_def link_malformed_def link_no_context_def link_percent_def
      link_bad_json_def link_no_oid_def link_short_oid_def link_ok_def link_escape_def
      link_number_def)

lemma sample_decode:
  "decodeURIComponent sample_runtime context_percent = None"
  "decodeURIComponent sample_runtime ''oops'' = Some ''oops''"
  "decodeURIComponent sample_runtime context_no_oid = Some context_no_oid"
  "decodeURIComponent sample_runtime context_short_oid = Some context_short_oid"
  "decodeURIComponent sample_runtime context_ok = Some context_ok"
  "decodeURIComponent sample_runtime context_escape = Some context_escape_decoded"
  "decodeURIComponent sample_runtime context_number = Some context_number"
  by (simp_all add: sample_runtime_def context_percent_def context_no_oid_def
      context_short_oid_def context_ok_def context_escape_def context_number_def)

lemma sample_parse:
  "JSON_parse sample_runtime ''oops'' = None"
  "JSON_parse sample_runtime context_no_oid = Some (JObj [(''Tid'', JStr ''t1'')])"
  "JSON_parse sample_runtime context_short_oid =
     Some (JObj [(''Tid'', JStr ''t1''), (''Oid'', JStr ''not-a-guid'')])"
  "JSON_parse sample_runtime context_ok =
     Some (JObj [(''Tid'', JStr ''11111111-1111-1111-1111-111111111111''),
                 (''Oid'', JStr ''22222222-2222-2222-2222-222222222222'')])"
  "JSON_parse sample_runtime context_percent = Some (JObj [(''Oid'', JStr ''100%'')])"
  "JSON_parse sample_runtime context_escape = Some (JObj [(''Oid'', JStr ''a%41'')])"
  "JSON_parse sample_runtime context_escape_decoded = Some (JObj [(''Oid'', JStr ''aA'')])"
  "JSON_parse sample_runtime context_number = Some (JObj [(''Oid'', JNum ''1e+21'')])"
  by (simp_all add: sample_runtime_def context_no_oid_def context_short_oid_def context_ok_def
      context_percent_def context_escape_def context_escape_decoded_def context_number_def)

lemma sample_get:
  "searchParams_get sample_runtime [] ''context'' = None"
  "searchParams_get sample_runtime [(''context'', c)] ''context'' = Some c"
  by (simp_all add: sample_runtime_def)

lemma sample_contexts_nonempty:
  "context_percent \<noteq> []" "context_no_oid \<noteq> []" "context_short_oid \<noteq> []" "context_ok \<noteq> []"
  "context_escape \<noteq> []" "context_number \<noteq> []"
  by (simp_all add: context_percent_def context_no_oid_def context_short_oid_def context_ok_def
      context_escape_def context_number_def)

text \<open>
  Claim C7 says that the resolver returns exactly the \<^verbatim>\<open>Oid\<close> of the JSON object that
  the link's \<^verbatim>\<open>context\<close> parameter holds once URL-decoded. The code decodes twice:
  \<^verbatim>\<open>searchParams.get("context")\<close> already returns the decoded value, and
  \<^verbatim>\<open>decodeURIComponent\<close> is applied to it again before \<^verbatim>\<open>JSON.parse\<close>. For
  \<open>link_percent\<close> the decoded context is the JSON text \<^verbatim>\<open>{"Oid":"100%"}\<close>, with the
  non-empty \<^verbatim>\<open>Oid\<close> \<^verbatim>\<open>100%\<close>; the second decoding throws, the resolver returns null
  and the join answers the invalid-link error. For \<open>link_escape\<close> the decoded context is
  \<^verbatim>\<open>{"Oid":"a%41"}\<close>; the resolver returns \<^verbatim>\<open>aA\<close>, which is not the \<^verbatim>\<open>Oid\<close> of the
  link.
\<close>

theorem organizer_oid_decoded_twice:
  "new_URL sample_runtime link_percent = Some [(''context'', context_percent)]
   \<and> searchParams_get sample_runtime [(''context'', context_percent)] ''context''
       = Some context_percent
   \<and> JSON_parse sample_runtime context_percent = Some (JObj [(''Oid'', JStr ''100%'')])
   \<and> tryExtractOrganizerOid sample_runtime link_percent = JNull
   \<and> res (join sample_config sample_runtime sample_services [] (Some link_percent)) =
        \<lparr>status = 400,
         body = Json (JObj [(''error'',
           JStr ''Could not extract organizer Oid from joinWebUrl context.'')])\<rparr>
   \<and> new_URL sample_runtime link_escape = Some [(''context'', context_escape)]
   \<and> searchParams_get sample_runtime [(''context'', context_escape)] ''context''
       = Some context_escape
   \<and> JSON_parse sample_runtime context_escape = Some (JObj [(''Oid'', JStr ''a%41'')])
   \<and> tryExtractOrganizerOid sample_runtime link_escape = JStr ''aA''"
proof -
  have percent: "tryExtractOrganizerOid sample_runtime link_percent = JNull"
    using decode_throws [OF sample_new_URL(3) sample_get(2) sample_contexts_nonempty(1)
        sample_decode(1)] .
  have l: "link_percent \<noteq> []" by (simp add: link_percent_def)
  have rejected: "res (join sample_config sample_runtime sample_services [] (Some link_percent)) =
        \<lparr>status = 400,
         body = Json (JObj [(''error'',
           JStr ''Could not extract organizer Oid from joinWebUrl context.'')])\<rparr>"
    using join_unresolved [OF l, of sample_runtime sample_config sample_services "[]"] percent
    by simp
  have escape: "tryExtractOrganizerOid sample_runtime link_escape = JStr ''aA''"
    using oid_from_context [OF sample_new_URL(8) sample_get(2) sample_contexts_nonempty(5)
        sample_decode(6) sample_parse(7)]
    by simp
  from percent rejected escape show ?thesis
    by (simp add: sample_new_URL sample_get sample_parse)
qed









section \<open>Selecting the latest transcript\<close>

text \<open>The last element of a filtered list sits at the last index that passes the filter.\<close>

lemma last_filter_index:
  "filter P ts \<noteq> [] \<Longrightarrow>
   \<exists>i<length ts. ts ! i = last (filter P ts) \<and> P (ts ! i)
     \<and> (\<forall>j<length ts. i < j \<longrightarrow> \<not> P (ts ! j))"
proof (induction ts rule: rev_induct)
  case Nil
  then show ?case by simp
next
  case (snoc x xs)
  show ?case
  proof (cases "P x")
    case True
    then have "(xs @ [x]) ! length xs = last (filter P (xs @ [x])) \<and> P ((xs @ [x]) ! length xs)"
      by simp
    then show ?thesis by (intro exI [of _ "length xs"]) auto
  next
    case False
    with snoc.prems have "filter P xs \<noteq> []" by simp
    from snoc.IH [OF this] obtain i where i: "i < length xs" "xs ! i = last (filter P xs)"
      "P (xs ! i)" "\<forall>j<length xs. i < j \<longrightarrow> \<not> P (xs ! j)"
      by blast
    have later: "\<not> P ((xs @ [x]) ! j)" if "j < length (xs @ [x])" "i < j" for j
    proof (cases "j < length xs")
      case True
      with i(4) that show ?thesis by (simp add: nth_append)
    next
      case False
      with that have "j = length xs" by simp
      with \<open>\<not> P x\<close> show ?thesis by simp
    qed
    from i False have "(xs @ [x]) ! i = last (filter P (xs @ [x])) \<and> P ((xs @ [x]) ! i)"
      by (simp add: nth_append)
    with i(1) later show ?thesis by (intro exI [of _ i]) auto
  qed
qed

lemma last_of_filter:
  assumes "xs \<noteq> []" and "P (last xs)"
  shows "last (filter P xs) = last xs"
proof -
  from assms(1) have "xs = butlast xs @ [last xs]" by simp
  then have "filter P xs = filter P (butlast xs) @ filter P [last xs]"
    by (metis filter_append)
  with assms(2) show ?thesis by simp
qed

lemma sorted_last_greatest:
  assumes "sorted (map f ys)" and "y \<in> set ys"
  shows "f y \<le> f (last ys)"
proof -
  from assms(2) obtain i where i: "i < length ys" "ys ! i = y"
    by (auto simp: in_set_conv_nth)
  then have ne: "ys \<noteq> []" by auto
  from i have "i \<le> length ys - 1" and "length ys - 1 < length (map f ys)" by auto
  with assms(1) have "map f ys ! i \<le> map f ys ! (length ys - 1)"
    by (simp add: sorted_iff_nth_mono)
  with i ne show ?thesis by (simp add: last_conv_nth)
qed

text \<open>
  A stable ascending rearrangement \<open>ys\<close> of \<open>ts\<close> (ascending by the key \<open>f\<close>, entries of equal
  key in their original order) ends with the entry of \<open>ts\<close> at the last index among those
  of greatest key.
\<close>

lemma stable_sorted_last:
  assumes ne: "ts \<noteq> []"
    and sorted: "sorted (map f ys)"
    and stable: "\<forall>k. filter (\<lambda>t. f t = k) ys = filter (\<lambda>t. f t = k) ts"
  shows "ys \<noteq> [] \<and> last ys = last (filter (\<lambda>t. f t = Max (f ` set ts)) ts)"
proof -
  have same: "filter (\<lambda>t. f t = k) ys = filter (\<lambda>t. f t = k) ts" for k
    using stable by (rule spec)
  have mem: "x \<in> set ys \<longleftrightarrow> x \<in> set ts" for x
  proof -
    have "x \<in> set ys \<longleftrightarrow> x \<in> set (filter (\<lambda>t. f t = f x) ys)" by simp
    also have "\<dots> \<longleftrightarrow> x \<in> set (filter (\<lambda>t. f t = f x) ts)" by (simp only: same)
    also have "\<dots> \<longleftrightarrow> x \<in> set ts" by simp
    finally show ?thesis .
  qed
  then have sets: "set ys = set ts" by (rule set_eqI)
  with ne have ys: "ys \<noteq> []" by auto
  then have "last ys \<in> set ys" by (rule last_in_set)
  then have in_ts: "last ys \<in> set ts" by (simp only: sets)
  have ge: "f t \<le> f (last ys)" if "t \<in> set ts" for t
    using that sorted_last_greatest [OF sorted, of t] sets by simp
  have max: "Max (f ` set ts) = f (last ys)"
  proof (rule Max_eqI)
    show "finite (f ` set ts)" by simp
    show "y \<le> f (last ys)" if "y \<in> f ` set ts" for y
      using that ge by auto
    show "f (last ys) \<in> f ` set ts" using in_ts by (rule imageI)
  qed
  have "last (filter (\<lambda>t. f t = f (last ys)) ys) = last ys"
    using ys by (rule last_of_filter) simp
  then have "last (filter (\<lambda>t. f t = f (last ys)) ts) = last ys"
    by (simp only: same)
  with max ys show ?thesis by simp
qed

lemma greatest_last_index:
  assumes "ts \<noteq> []"
  shows "\<exists>i<length ts. ts ! i = last (filter (\<lambda>t. f t = Max (f ` set ts)) ts)
           \<and> (\<forall>j<length ts. f (ts ! j) \<le> f (ts ! i))
           \<and> (\<forall>j<length ts. i < j \<longrightarrow> f (ts ! j) < f (ts ! i))"
proof -
  let ?k = "Max (f ` set ts)"
  from assms have "?k \<in> f ` set ts" by (intro Max_in) auto
  then have "filter (\<lambda>t. f t = ?k) ts \<noteq> []" by (auto simp: filter_empty_conv)
  from last_filter_index [OF this] obtain i where i: "i < length ts"
    "ts ! i = last (filter (\<lambda>t. f t = ?k) ts)" "f (ts ! i) = ?k"
    "\<forall>j<length ts. i < j \<longrightarrow> f (ts ! j) \<noteq> ?k"
    by blast
  have le: "f (ts ! j) \<le> ?k" if "j < length ts" for j
    using that by (intro Max_ge) auto
  have "f (ts ! j) < f (ts ! i)" if "j < length ts" "i < j" for j
    using le [OF that(1)] i(3,4) that by (simp add: less_le)
  with i le show ?thesis by (intro exI [of _ i]) auto
qed

lemma latest_sorted:
  "latest rt ts =
     (if ts = [] then None
      else Some (last (sort_key (\<lambda>t. collation_key rt (timestamp t)) ts)))"
proof -
  have "sort_key (\<lambda>t. collation_key rt (timestamp t)) ts = [] \<longleftrightarrow> ts = []"
    by (metis length_0_conv length_sort)
  then show ?thesis by (simp add: latest_def sorted_transcripts_def Let_def)
qed

lemma latest_in_set:
  assumes "latest rt ts = Some l"
  shows "l \<in> set ts"
proof -
  let ?sorted = "sort_key (\<lambda>t. collation_key rt (timestamp t)) ts"
  from assms have ne: "ts \<noteq> []" by (auto simp: latest_sorted)
  then have "?sorted \<noteq> []" by (metis length_0_conv length_sort)
  then have "last ?sorted \<in> set ?sorted" by (rule last_in_set)
  then have "last ?sorted \<in> set ts" by simp
  with assms ne show ?thesis by (simp add: latest_sorted)
qed

lemma latest_greatest_last:
  assumes "ts \<noteq> []"
  shows "latest rt ts =
     Some (last (filter (\<lambda>t. collation_key rt (timestamp t)
                            = Max ((\<lambda>t. collation_key rt (timestamp t)) ` set ts)) ts))"
  using stable_sorted_last [OF assms sorted_sort_key, of "\<lambda>t. collation_key rt (timestamp t)"]
    assms
  by (simp add: latest_sorted sort_key_stable)

text \<open>The transcript handler once the meeting is located.\<close>

lemma transcripts_located:
  assumes "link \<noteq> []"
    and "truthy (tryExtractOrganizerOid rt link)"
    and "getGraphToken svc = Inr token"
    and "get_onlineMeetings svc (onlineMeetings_url rt (tryExtractOrganizerOid rt link) link) token
         = Inr (Some (m # ms))"
    and "get_transcripts svc (transcripts_url (tryExtractOrganizerOid rt link) (meeting_id m)) token
         = Inr (Some ts)"
    and "latest rt ts = Some l"
  shows "io (transcripts rt svc g (Some link)) =
     [Token_request,
      Http_get (onlineMeetings_url rt (tryExtractOrganizerOid rt link) link) token,
      Http_get (transcripts_url (tryExtractOrganizerOid rt link) (meeting_id m)) token,
      Http_get (transcripts_url (tryExtractOrganizerOid rt link) (meeting_id m)
                @ ''/'' @ transcript_id l @ ''/content'') token]"
proof -
  obtain c cs where l: "link = c # cs" using assms(1) by (cases link) auto
  have f: "findOnlineMeeting rt svc token (tryExtractOrganizerOid rt (c # cs)) (c # cs) =
      \<lparr>meeting = Some m,
       tried = onlineMeetings_url rt (tryExtractOrganizerOid rt (c # cs)) (c # cs),
       error = JUndefined\<rparr>"
    using find_meeting_found [OF assms(4)] l by simp
  have ne: "ts \<noteq> []" using assms(6) by (auto simp: latest_sorted)
  show ?thesis
    using assms(2,3,5,6) l ne
    by (simp add: transcripts_def Let_def f split: sum.split)
qed

text \<open>
  Claim C9. For a non-empty transcript list the retriever selects the entry that is last
  in any stable ascending rearrangement of the list by creation timestamp (an absent
  timestamp counting as the empty string, timestamps compared as \<^verbatim>\<open>localeCompare\<close>
  orders them): it is the entry at the index \<open>i\<close> whose timestamp is greatest and such that
  every later entry has a strictly smaller timestamp, that is, the last one in list
  order among those with the greatest timestamp. The content request of the transcript
  route is for that entry. For the timestamps 2024-01-01T00:00:00Z, 2024-01-02T00:00:00Z,
  2024-01-02T00:00:00Z in this order it is the third entry.
\<close>

theorem latest_transcript_selection:
  assumes "ts \<noteq> []"
  shows "(\<exists>i<length ts. latest rt ts = Some (ts ! i)
            \<and> (\<forall>j<length ts. collation_key rt (timestamp (ts ! j))
                              \<le> collation_key rt (timestamp (ts ! i)))
            \<and> (\<forall>j<length ts. i < j \<longrightarrow> collation_key rt (timestamp (ts ! j))
                                      < collation_key rt (timestamp (ts ! i))))
         \<and> (\<forall>ys. sorted (map (\<lambda>t. collation_key rt (timestamp t)) ys)
                \<and> (\<forall>k. filter (\<lambda>t. collation_key rt (timestamp t) = k) ys
                       = filter (\<lambda>t. collation_key rt (timestamp t) = k) ts)
              \<longrightarrow> latest rt ts = Some (last ys))
         \<and> (\<forall>link svc token m ms g.
               link \<noteq> [] \<and> truthy (tryExtractOrganizerOid rt link)
               \<and> getGraphToken svc = Inr token
               \<and> get_onlineMeetings svc
                    (onlineMeetings_url rt (tryExtractOrganizerOid rt link) link) token
                   = Inr (Some (m # ms))
               \<and> get_transcripts svc
                    (transcripts_url (tryExtractOrganizerOid rt link) (meeting_id m)) token
                   = Inr (Some ts)
              \<longrightarrow> (\<exists>l. latest rt ts = Some l
                     \<and> last (io (transcripts rt svc g (Some link))) =
                         Http_get (transcripts_url (tryExtractOrganizerOid rt link) (meeting_id m)
                                   @ ''/'' @ transcript_id l @ ''/content'') token))
         \<and> latest sample_runtime sample_transcripts =
             Some \<lparr>transcript_id = ''third'', createdDateTime = Some ''2024-01-02T00:00:00Z''\<rparr>"
proof -
  let ?key = "\<lambda>t. collation_key rt (timestamp t)"
  have canon: "latest rt ts = Some (last (filter (\<lambda>t. ?key t = Max (?key ` set ts)) ts))"
    using assms by (rule latest_greatest_last)
  have index: "\<exists>i<length ts. latest rt ts = Some (ts ! i)
            \<and> (\<forall>j<length ts. ?key (ts ! j) \<le> ?key (ts ! i))
            \<and> (\<forall>j<length ts. i < j \<longrightarrow> ?key (ts ! j) < ?key (ts ! i))"
    using greatest_last_index [OF assms, of ?key] canon by auto
  have any_stable: "latest rt ts = Some (last ys)"
    if "sorted (map ?key ys)"
      and "\<forall>k. filter (\<lambda>t. ?key t = k) ys = filter (\<lambda>t. ?key t = k) ts"
    for ys
    using stable_sorted_last [OF assms that] canon by simp
  have request: "\<exists>l. latest rt ts = Some l
      \<and> last (io (transcripts rt svc g (Some link))) =
          Http_get (transcripts_url (tryExtractOrganizerOid rt link) (meeting_id m)
                    @ ''/'' @ transcript_id l @ ''/content'') token"
    if "link \<noteq> []" "truthy (tryExtractOrganizerOid rt link)" "getGraphToken svc = Inr token"
      "get_onlineMeetings svc (onlineMeetings_url rt (tryExtractOrganizerOid rt link) link) token
         = Inr (Some (m # ms))"
      "get_transcripts svc (transcripts_url (tryExtractOrganizerOid rt link) (meeting_id m)) token
         = Inr (Some ts)"
    for link svc token m ms g
    using transcripts_located [OF that canon, of g] canon by simp
  have example: "latest sample_runtime sample_transcripts =
      Some \<lparr>transcript_id = ''third'', createdDateTime = Some ''2024-01-02T00:00:00Z''\<rparr>"
    by (simp add: latest_sorted sample_transcripts_def sample_runtime_def timestamp_def
        str_or_empty_def)
  from index any_stable request example show ?thesis by blast
qed

theorem latest_transcript_selection_witness:
  "sample_transcripts \<noteq> []
   \<and> map timestamp sample_transcripts =
       [''2024-01-01T00:00:00Z'', ''2024-01-02T00:00:00Z'', ''2024-01-02T00:00:00Z'']
   \<and> latest sample_runtime sample_transcripts = Some (sample_transcripts ! 2)
   \<and> transcript_id (sample_transcripts ! 2) = ''third''
   \<and> last (io (transcripts sample_runtime sample_services sample_guard (Some link_ok))) =
       Http_get (''https://graph.microsoft.com/v1.0/users/22222222-2222-2222-2222-222222222222''
                 @ ''/onlineMeetings/MSo1N2Y5/transcripts/third/content'') ''token''"
proof -
  let ?ts = sample_transcripts
  have ne: "?ts \<noteq> []" by (simp add: sample_transcripts_def)
  have stamps: "map timestamp ?ts =
      [''2024-01-01T00:00:00Z'', ''2024-01-02T00:00:00Z'', ''2024-01-02T00:00:00Z'']"
    by (simp add: sample_transcripts_def timestamp_def str_or_empty_def)
  have key: "collation_key sample_runtime s = s" for s
    by (simp add: sample_runtime_def)
  have len: "length ?ts = 3" by (simp add: sample_transcripts_def)
  have t0: "timestamp (?ts ! 0) = ''2024-01-01T00:00:00Z''"
    and t1: "timestamp (?ts ! 1) = ''2024-01-02T00:00:00Z''"
    and t2: "timestamp (?ts ! 2) = ''2024-01-02T00:00:00Z''"
    by (simp_all add: sample_transcripts_def timestamp_def str_or_empty_def)
  note sel = latest_transcript_selection [OF ne, of sample_runtime]
  from sel obtain i where i: "i < length ?ts" "latest sample_runtime ?ts = Some (?ts ! i)"
    and later: "\<forall>j<length ?ts. i < j \<longrightarrow>
        collation_key sample_runtime (timestamp (?ts ! j))
          < collation_key sample_runtime (timestamp (?ts ! i))"
    by blast
  have "i = 2"
  proof (rule ccontr)
    assume "i \<noteq> 2"
    with i(1) len have "i = 0 \<or> i = 1" by auto
    moreover from later \<open>i \<noteq> 2\<close> i(1) len
    have "timestamp (?ts ! 2) < timestamp (?ts ! i)" by (simp add: key)
    ultimately show False using t0 t1 t2 by auto
  qed
  with i(2) have third: "latest sample_runtime ?ts = Some (?ts ! 2)" by simp
  have id: "transcript_id (?ts ! 2) = ''third''" by (simp add: sample_transcripts_def)
  have l: "link_ok \<noteq> []" by (simp add: link_ok_def)
  have oid: "truthy (tryExtractOrganizerOid sample_runtime link_ok)" by (simp add: sample_oid)
  have tok: "getGraphToken sample_services = Inr ''token''" by (simp add: sample_services_def)
  have fnd: "get_onlineMeetings sample_services
      (onlineMeetings_url sample_runtime (tryExtractOrganizerOid sample_runtime link_ok) link_ok)
      ''token'' = Inr (Some [sample_meeting])"
    by (simp add: sample_services_def)
  have lst: "get_transcripts sample_services
      (transcripts_url (tryExtractOrganizerOid sample_runtime link_ok) (meeting_id sample_meeting))
      ''token'' = Inr (Some ?ts)"
    by (simp add: sample_services_def)
  from sel l oid tok fnd lst
  have "\<exists>l. latest sample_runtime ?ts = Some l
      \<and> last (io (transcripts sample_runtime sample_services sample_guard (Some link_ok))) =
          Http_get (transcripts_url (tryExtractOrganizerOid sample_runtime link_ok)
                      (meeting_id sample_meeting)
                    @ ''/'' @ transcript_id l @ ''/content'') ''token''"
    by blast
  with third id
  have "last (io (transcripts sample_runtime sample_services sample_guard (Some link_ok))) =
       Http_get (''https://graph.microsoft.com/v1.0/users/22222222-2222-2222-2222-222222222222''
                 @ ''/onlineMeetings/MSo1N2Y5/transcripts/third/content'') ''token''"
    by (simp add: transcripts_url_def sample_oid sample_meeting_def)
  with ne stamps third id show ?thesis by simp
qed

lemma all_undated_last:
  assumes "ts \<noteq> []" and "\<forall>t\<in>set ts. timestamp t = []"
  shows "latest rt ts = Some (last ts)"
proof -
  let ?key = "\<lambda>t. collation_key rt (timestamp t)"
  have same: "?key t = collation_key rt []" if "t \<in> set ts" for t
    using assms(2) that by simp
  have "Max (?key ` set ts) \<in> ?key ` set ts" using assms(1) by (intro Max_in) auto
  with same have "Max (?key ` set ts) = collation_key rt []" by auto
  with same have "filter (\<lambda>t. ?key t = Max (?key ` set ts)) ts = ts"
    by (simp add: filter_id_conv)
  with latest_greatest_last [OF assms(1), of rt] show ?thesis by simp
qed

text \<open>
  Claim C10 says that an entry without a creation timestamp sorts before every timestamped
  entry and is selected only when every entry lacks a timestamp. The code compares the
  timestamps with \<^verbatim>\<open>localeCompare\<close>, an absent one as the empty string, and the claim holds
  only of timestamps that \<^verbatim>\<open>localeCompare\<close> puts after the empty string. Under a collation
  that ignores the control character U+0001, a list whose first entry is stamped with
  that character and whose second entry has no timestamp is left as it is by the sort:
  the entry without a timestamp comes after the stamped one and is selected.
\<close>

theorem missing_timestamp_counterexample:
  "map createdDateTime transcripts_control_stamp = [Some [CHR 0x01], None]
   \<and> map timestamp transcripts_control_stamp = [[CHR 0x01], []]
   \<and> map transcript_id (sorted_transcripts ignoring_runtime transcripts_control_stamp)
       = [''stamped'', ''undated'']
   \<and> latest ignoring_runtime transcripts_control_stamp = Some (transcripts_control_stamp ! 1)
   \<and> transcript_id (transcripts_control_stamp ! 1) = ''undated''
   \<and> createdDateTime (transcripts_control_stamp ! 1) = None"
  by (simp add: latest_def sorted_transcripts_def transcripts_control_stamp_def
      ignoring_runtime_def timestamp_def str_or_empty_def)

text \<open>
  Claim C10 as amended. An entry whose creation timestamp is missing (or empty) is compared
  under the empty string. Provided \<^verbatim>\<open>localeCompare\<close> puts the empty string strictly before
  every non-empty timestamp of the list (as it does for ISO-8601 timestamps): the sorted
  list is the stable ascending rearrangement of the list by timestamp, and in it every
  entry without a timestamp comes before every timestamped entry; the entry selected is
  the last one of the sorted list; while the list has a timestamped entry, the entry
  selected is a timestamped one, namely the last in list order among those of greatest
  timestamp; an entry without a timestamp is selected only when every entry lacks a
  timestamp, and then it is the last entry of the list.
\<close>

theorem missing_timestamp_sorts_first:
  assumes above: "\<forall>t\<in>set ts. timestamp t \<noteq> [] \<longrightarrow>
                    collation_key rt [] < collation_key rt (timestamp t)"
  shows "(\<forall>t. createdDateTime t = None \<or> createdDateTime t = Some [] \<longrightarrow> timestamp t = [])
         \<and> (\<forall>t s. createdDateTime t = Some s \<longrightarrow> timestamp t = s)
         \<and> sorted (map (\<lambda>t. collation_key rt (timestamp t)) (sorted_transcripts rt ts))
         \<and> (\<forall>k. filter (\<lambda>t. collation_key rt (timestamp t) = k) (sorted_transcripts rt ts)
                = filter (\<lambda>t. collation_key rt (timestamp t) = k) ts)
         \<and> (\<forall>i j. i < length ts \<and> j < length ts
               \<and> timestamp (sorted_transcripts rt ts ! i) = []
               \<and> timestamp (sorted_transcripts rt ts ! j) \<noteq> []
              \<longrightarrow> i < j)
         \<and> latest rt ts = (if ts = [] then None else Some (last (sorted_transcripts rt ts)))
         \<and> ((\<exists>t\<in>set ts. timestamp t \<noteq> [])
              \<longrightarrow> (\<exists>i<length ts. latest rt ts = Some (ts ! i) \<and> timestamp (ts ! i) \<noteq> []
                     \<and> (\<forall>j<length ts. collation_key rt (timestamp (ts ! j))
                                       \<le> collation_key rt (timestamp (ts ! i)))
                     \<and> (\<forall>j<length ts. i < j \<longrightarrow> collation_key rt (timestamp (ts ! j))
                                               < collation_key rt (timestamp (ts ! i)))))
         \<and> (\<forall>l. latest rt ts = Some l \<and> timestamp l = []
              \<longrightarrow> (\<forall>t\<in>set ts. timestamp t = []) \<and> l = last ts)
         \<and> (ts \<noteq> [] \<and> (\<forall>t\<in>set ts. timestamp t = []) \<longrightarrow> latest rt ts = Some (last ts))"
proof -
  let ?key = "\<lambda>t. collation_key rt (timestamp t)"
  let ?sorted = "sorted_transcripts rt ts"
  have empty: "\<forall>t. createdDateTime t = None \<or> createdDateTime t = Some [] \<longrightarrow> timestamp t = []"
    by (auto simp: timestamp_def str_or_empty_def)
  have given: "\<forall>t s. createdDateTime t = Some s \<longrightarrow> timestamp t = s"
    by (simp add: timestamp_def str_or_empty_def)
  have ascending: "sorted (map ?key ?sorted)"
    by (simp add: sorted_transcripts_def)
  have stable: "\<forall>k. filter (\<lambda>t. ?key t = k) ?sorted = filter (\<lambda>t. ?key t = k) ts"
    by (simp add: sorted_transcripts_def sort_key_stable)
  have len: "length ?sorted = length ts" by (simp add: sorted_transcripts_def)
  have mem: "set ?sorted = set ts" by (simp add: sorted_transcripts_def)
  have before: "i < j"
    if "i < length ts" "j < length ts" "timestamp (?sorted ! i) = []"
      "timestamp (?sorted ! j) \<noteq> []" for i j
  proof (rule ccontr)
    assume "\<not> i < j"
    then have "j \<le> i" by simp
    with ascending have "map ?key ?sorted ! j \<le> map ?key ?sorted ! i"
      using that(1) len by (simp add: sorted_iff_nth_mono)
    then have "?key (?sorted ! j) \<le> collation_key rt []"
      using that len by simp
    moreover have "?sorted ! j \<in> set ?sorted"
      using that(2) len by (intro nth_mem) simp
    then have "?sorted ! j \<in> set ts" by (simp only: mem)
    then have "collation_key rt [] < ?key (?sorted ! j)"
      using above that(4) by blast
    ultimately show False by simp
  qed
  have ends: "latest rt ts = (if ts = [] then None else Some (last ?sorted))"
    by (simp add: latest_sorted sorted_transcripts_def)
  have selected: "\<exists>i<length ts. latest rt ts = Some (ts ! i) \<and> timestamp (ts ! i) \<noteq> []
      \<and> (\<forall>j<length ts. ?key (ts ! j) \<le> ?key (ts ! i))
      \<and> (\<forall>j<length ts. i < j \<longrightarrow> ?key (ts ! j) < ?key (ts ! i))"
    if some: "\<exists>t\<in>set ts. timestamp t \<noteq> []"
  proof -
    from some obtain t where t: "t \<in> set ts" "timestamp t \<noteq> []" by blast
    then have ne: "ts \<noteq> []" by auto
    have canon: "latest rt ts = Some (last (filter (\<lambda>t. ?key t = Max (?key ` set ts)) ts))"
      using ne by (rule latest_greatest_last)
    from greatest_last_index [OF ne, of ?key] obtain i where i: "i < length ts"
      "ts ! i = last (filter (\<lambda>t. ?key t = Max (?key ` set ts)) ts)"
      "\<forall>j<length ts. ?key (ts ! j) \<le> ?key (ts ! i)"
      "\<forall>j<length ts. i < j \<longrightarrow> ?key (ts ! j) < ?key (ts ! i)"
      by blast
    from t(1) obtain j where j: "j < length ts" "ts ! j = t"
      by (auto simp: in_set_conv_nth)
    with i(3) have "?key t \<le> ?key (ts ! i)" by auto
    moreover have "collation_key rt [] < ?key t" using above t by blast
    ultimately have "collation_key rt [] < ?key (ts ! i)" by simp
    then have "timestamp (ts ! i) \<noteq> []" by auto
    with i canon show ?thesis by (intro exI [of _ i]) simp
  qed
  have all_undated: "latest rt ts = Some (last ts)"
    if "ts \<noteq> []" "\<forall>t\<in>set ts. timestamp t = []"
    using that by (rule all_undated_last)
  have only_undated: "(\<forall>t\<in>set ts. timestamp t = []) \<and> l = last ts"
    if l: "latest rt ts = Some l" "timestamp l = []" for l
  proof -
    have none: "\<forall>t\<in>set ts. timestamp t = []"
    proof (rule ccontr)
      assume "\<not> (\<forall>t\<in>set ts. timestamp t = [])"
      then have "\<exists>t\<in>set ts. timestamp t \<noteq> []" by simp
      from selected [OF this] l show False by auto
    qed
    from l(1) have "ts \<noteq> []" by (auto simp: latest_sorted)
    from all_undated [OF this none] l(1) none show ?thesis by simp
  qed
  from empty given ascending stable before ends selected only_undated all_undated
  show ?thesis by blast
qed

theorem missing_timestamp_sorts_first_witness:
  "collation_key sample_runtime [] < collation_key sample_runtime ''2024-01-01T00:00:00Z''
   \<and> map createdDateTime transcripts_with_gap = [Some ''2024-01-01T00:00:00Z'', None]
   \<and> map timestamp transcripts_with_gap = [''2024-01-01T00:00:00Z'', []]
   \<and> map transcript_id (sorted_transcripts sample_runtime transcripts_with_gap)
       = [''undated'', ''dated'']
   \<and> latest sample_runtime transcripts_with_gap = Some (transcripts_with_gap ! 0)
   \<and> transcript_id (transcripts_with_gap ! 0) = ''dated''
   \<and> map createdDateTime transcripts_undated = [None, Some []]
   \<and> map timestamp transcripts_undated = [[], []]
   \<and> latest sample_runtime transcripts_undated = Some (transcripts_undated ! 1)
   \<and> transcript_id (transcripts_undated ! 1) = ''blank''"
proof -
  let ?ts = transcripts_with_gap
  let ?us = transcripts_undated
  have key: "collation_key sample_runtime s = s" for s
    by (simp add: sample_runtime_def)
  have stamps: "map timestamp ?ts = [''2024-01-01T00:00:00Z'', []]"
    by (simp add: transcripts_with_gap_def timestamp_def str_or_empty_def)
  have created: "map createdDateTime ?ts = [Some ''2024-01-01T00:00:00Z'', None]"
    by (simp add: transcripts_with_gap_def)
  have above: "\<forall>t\<in>set ?ts. timestamp t \<noteq> [] \<longrightarrow>
      collation_key sample_runtime [] < collation_key sample_runtime (timestamp t)"
    by (simp add: key transcripts_with_gap_def timestamp_def str_or_empty_def)
  have some: "\<exists>t\<in>set ?ts. timestamp t \<noteq> []"
    by (simp add: transcripts_with_gap_def timestamp_def str_or_empty_def)
  have len: "length ?ts = 2" by (simp add: transcripts_with_gap_def)
  have t1: "timestamp (?ts ! 1) = []"
    by (simp add: transcripts_with_gap_def timestamp_def str_or_empty_def)
  from missing_timestamp_sorts_first [OF above] some
  obtain i where i: "i < length ?ts" "latest sample_runtime ?ts = Some (?ts ! i)"
    "timestamp (?ts ! i) \<noteq> []"
    by blast
  have "i = 0"
  proof (rule ccontr)
    assume "i \<noteq> 0"
    with i(1) len have "i = 1" by simp
    with i(3) t1 show False by simp
  qed
  with i(2) have sel: "latest sample_runtime ?ts = Some (?ts ! 0)" by simp
  have order: "map transcript_id (sorted_transcripts sample_runtime ?ts) = [''undated'', ''dated'']"
    by (simp add: sorted_transcripts_def key transcripts_with_gap_def timestamp_def
        str_or_empty_def)
  have id: "transcript_id (?ts ! 0) = ''dated''" by (simp add: transcripts_with_gap_def)
  have created': "map createdDateTime ?us = [None, Some []]"
    by (simp add: transcripts_undated_def)
  have stamps': "map timestamp ?us = [[], []]"
    by (simp add: transcripts_undated_def timestamp_def str_or_empty_def)
  have ne': "?us \<noteq> []" by (simp add: transcripts_undated_def)
  have none': "\<forall>t\<in>set ?us. timestamp t = []"
    by (simp add: transcripts_undated_def timestamp_def str_or_empty_def)
  then have above': "\<forall>t\<in>set ?us. timestamp t \<noteq> [] \<longrightarrow>
      collation_key sample_runtime [] < collation_key sample_runtime (timestamp t)"
    by simp
  from missing_timestamp_sorts_first [OF above'] ne' none'
  have "latest sample_runtime ?us = Some (last ?us)" by blast
  moreover have "last ?us = ?us ! 1" by (simp add: transcripts_undated_def)
  ultimately have sel': "latest sample_runtime ?us = Some (?us ! 1)" by simp
  have id': "transcript_id (?us ! 1) = ''blank''" by (simp add: transcripts_undated_def)
  from stamps created sel order id created' stamps' sel' id' show ?thesis by (simp add: key)
qed

end
